theory Spec2Isabelle
  imports Complex_Main "HOL-Library.Char_ord" "HOL-Library.List_Lexorder" "HOL-Library.Multiset"
begin

section \<open>Paper records\<close>

text \<open>
  Both scripts pass papers around as Python dictionaries. A paper is modelled as a record
  with one field per key the code reads or writes. A key that is absent and a key whose
  value is \<^verbatim>\<open>None\<close> are both \<open>None\<close> where the code reads the key through
  \<^verbatim>\<open>paper.get(k)\<close>, which does not tell them apart. Two keys are also read with a
  default, \<^verbatim>\<open>paper.get("authors", [])\<close> in \<^verbatim>\<open>score_paper\<close> and
  \<^verbatim>\<open>paper.get("_thread", ...)\<close> in \<^verbatim>\<open>compute_warm_positions\<close>, where only an
  absent key gives the default: for these two \<open>None\<close> is the absent key, and a stored
  \<^verbatim>\<open>None\<close>, which no row made by the two scripts holds, is outside the type. The key
  \<^verbatim>\<open>id\<close> is read with \<^verbatim>\<open>paper["id"]\<close> and is always a string. Python's unbounded integers are
  \<open>int\<close>, its floats are idealised as \<open>real\<close>, strings are \<open>string\<close> (characters with
  codes below 256, ordered by code as Python orders code points).
\<close>

record paper =
  paper_id :: string
  title :: "string option"
  year :: "int option"
  authors :: "string list option"
  venue :: "string option"
  doi :: "string option"
  arxiv_id :: "string option"
  eprint_id :: "string option"
  url :: "string option"
  openalex_id :: "string option"
  cited_by_count :: "int option"
  ss_cited_by_count :: "int option"
  referenced_works :: "string list option"
  work_type :: "string option"
  abstract_text :: "string option"
  concept_terms :: "string list option"
  keyword_terms :: "string list option"
  relevance_score :: "real option"
  relevance_reasons :: "string list option"
  tags :: "string list option"
  matched_queries :: "string list option"
  source_types :: "string list option"
  source_label :: "string option"
  seed_flag :: "bool option"
  aliases :: "string list option"

text \<open>\<^verbatim>\<open>x or d\<close> on an optional value: the default replaces \<^verbatim>\<open>None\<close> and every falsy value.\<close>

definition or_list :: "'a list option \<Rightarrow> 'a list" where
  "or_list v = (case v of None \<Rightarrow> [] | Some xs \<Rightarrow> xs)"

definition or_int :: "int option \<Rightarrow> int \<Rightarrow> int" where
  "or_int v d = (case v of None \<Rightarrow> d | Some n \<Rightarrow> if n = 0 then d else n)"

definition or_real :: "real option \<Rightarrow> real \<Rightarrow> real" where
  "or_real v d = (case v of None \<Rightarrow> d | Some x \<Rightarrow> if x = 0 then d else x)"

definition or_str :: "string option \<Rightarrow> string" where
  "or_str v = (case v of None \<Rightarrow> [] | Some s \<Rightarrow> s)"

section \<open>analyze.py: thread assignment\<close>

definition THREAD_ORDER :: "string list" where
  "THREAD_ORDER =
     [''classical_calcvar'', ''direct_methods'', ''regularity'', ''geometric'',
      ''optimal_control'', ''convexity'', ''gamma_convergence'', ''optimal_transport'',
      ''free_discontinuity'']"

text \<open>\<^verbatim>\<open>{t: i for i, t in enumerate(order)}\<close>: a later occurrence of a key overwrites.\<close>

definition index_dict :: "string list \<Rightarrow> (string \<rightharpoonup> nat)" where
  "index_dict order = foldl (\<lambda>m (i, t). m(t \<mapsto> i)) Map.empty (enumerate 0 order)"

definition THREAD_PRIORITY :: "string \<rightharpoonup> nat" where
  "THREAD_PRIORITY = index_dict THREAD_ORDER"

text \<open>
  \<^verbatim>\<open>THREAD_PRIORITY[t]\<close>; the lookup is only made for recognised tags, so the
  \<^verbatim>\<open>KeyError\<close> branch is never taken.
\<close>

definition priority_of :: "string \<Rightarrow> nat" where
  "priority_of t = (case THREAD_PRIORITY t of Some i \<Rightarrow> i | None \<Rightarrow> 0)"

text \<open>\<^verbatim>\<open>min(xs, key=f)\<close> on a non-empty list: the first element with the least key.\<close>

fun min_key :: "('a \<Rightarrow> nat) \<Rightarrow> 'a \<Rightarrow> 'a list \<Rightarrow> 'a" where
  "min_key f best [] = best"
| "min_key f best (x # xs) = min_key f (if f x < f best then x else best) xs"

definition assign_thread :: "'a paper_scheme \<Rightarrow> string" where
  "assign_thread p =
     (let tgs = or_list (tags p) in
      if tgs = [] then ''classical_calcvar''
      else
        let thread_tags = filter (\<lambda>t. THREAD_PRIORITY t \<noteq> None) tgs in
        if thread_tags = [] then ''classical_calcvar''
        else
          let specific = filter (\<lambda>t. t \<noteq> ''classical_calcvar'') thread_tags in
          case specific of
            [] \<Rightarrow> ''classical_calcvar''
          | s # rest \<Rightarrow> min_key priority_of s rest)"

text \<open>The list \<^verbatim>\<open>specific\<close> of \<^verbatim>\<open>assign_thread\<close>.\<close>

definition specific_of :: "'a paper_scheme \<Rightarrow> string list" where
  "specific_of p =
     filter (\<lambda>t. t \<noteq> ''classical_calcvar'') (filter (\<lambda>t. THREAD_PRIORITY t \<noteq> None) (or_list (tags p)))"

section \<open>analyze.py: citation graph\<close>

record edge =
  edge_source :: string
  edge_target :: string

text \<open>
  The inner loop of \<^verbatim>\<open>build_citation_graph\<close> for one paper. \<^verbatim>\<open>if target_id\<close>
  rejects a missing entry and an empty string.
\<close>

definition edges_of :: "string set \<Rightarrow> (string \<rightharpoonup> string) \<Rightarrow> 'a paper_scheme \<Rightarrow> edge list" where
  "edges_of paper_ids oa_id_to_paper_id p =
     concat (map (\<lambda>ref_oa.
        case oa_id_to_paper_id ref_oa of
          None \<Rightarrow> []
        | Some target_id \<Rightarrow>
            if target_id \<noteq> [] \<and> target_id \<in> paper_ids \<and> target_id \<noteq> paper_id p
            then [\<lparr>edge_source = paper_id p, edge_target = target_id\<rparr>] else [])
       (or_list (referenced_works p)))"

definition build_citation_graph :: "'a paper_scheme list \<Rightarrow> (string \<rightharpoonup> string) \<Rightarrow> edge list" where
  "build_citation_graph papers oa_id_to_paper_id =
     (let paper_ids = set (map paper_id papers)
      in concat (map (edges_of paper_ids oa_id_to_paper_id) papers))"

section \<open>build_papers_db.py: strings\<close>

text \<open>
  \<^verbatim>\<open>str.lower()\<close> on the characters modelled: the ASCII capitals and the Latin-1
  capitals (codes 192 to 222 without the multiplication sign 215) move up by 32.
\<close>

definition lower_char :: "char \<Rightarrow> char" where
  "lower_char c =
     (let n = (of_char c :: nat)
      in if (65 \<le> n \<and> n \<le> 90) \<or> (192 \<le> n \<and> n \<le> 222 \<and> n \<noteq> 215)
         then char_of (n + 32) else c)"

definition lower :: "string \<Rightarrow> string" where
  "lower s = map lower_char s"

text \<open>The character class \<^verbatim>\<open>[a-z0-9]\<close>, the class \<^verbatim>\<open>\d\<close> and Python's whitespace.\<close>

definition is_digit :: "char \<Rightarrow> bool" where
  "is_digit c = (let n = (of_char c :: nat) in 48 \<le> n \<and> n \<le> 57)"

definition is_lower_alnum :: "char \<Rightarrow> bool" where
  "is_lower_alnum c = (let n = (of_char c :: nat) in (97 \<le> n \<and> n \<le> 122) \<or> (48 \<le> n \<and> n \<le> 57))"

definition is_space :: "char \<Rightarrow> bool" where
  "is_space c =
     (let n = (of_char c :: nat)
      in (9 \<le> n \<and> n \<le> 13) \<or> (28 \<le> n \<and> n \<le> 32) \<or> n = 133 \<or> n = 160)"

text \<open>\<^verbatim>\<open>s.strip()\<close> and \<^verbatim>\<open>s.strip("-")\<close>: drop the characters of a class at both ends.\<close>

definition strip_where :: "(char \<Rightarrow> bool) \<Rightarrow> string \<Rightarrow> string" where
  "strip_where P s = rev (dropWhile P (rev (dropWhile P s)))"

text \<open>\<^verbatim>\<open>re.sub(r"[class]+", r, s)\<close>: every maximal run of the class becomes \<open>r\<close>.\<close>

function sub_runs :: "(char \<Rightarrow> bool) \<Rightarrow> char \<Rightarrow> string \<Rightarrow> string" where
  "sub_runs P r [] = []"
| "sub_runs P r (c # cs) =
     (if P c then r # sub_runs P r (dropWhile P cs) else c # sub_runs P r cs)"
  by pat_completeness auto
termination
  by (relation "measure (\<lambda>(P, r, cs). length cs)") (auto simp: length_dropWhile_le less_Suc_eq_le)

text \<open>\<^verbatim>\<open>re.sub(r"\\[nrt]", " ", s)\<close>: a backslash followed by n, r or t becomes a space.\<close>

fun sub_escapes :: "string \<Rightarrow> string" where
  "sub_escapes (c # d # cs) =
     (if c = CHR 0x5C \<and> (d = CHR ''n'' \<or> d = CHR ''r'' \<or> d = CHR ''t'')
      then CHR '' '' # sub_escapes cs else c # sub_escapes (d # cs))"
| "sub_escapes cs = cs"

definition normalize_title_key :: "string \<Rightarrow> string" where
  "normalize_title_key ttl =
     strip_where is_space
       (sub_runs (\<lambda>c. \<not> is_lower_alnum c) (CHR '' '') (sub_escapes (lower ttl)))"

text \<open>Decimal rendering of an integer, as \<^verbatim>\<open>str(n)\<close> and f-strings do.\<close>

function digits_of :: "nat \<Rightarrow> string" where
  "digits_of n = (if n < 10 then [char_of (48 + n)] else digits_of (n div 10) @ [char_of (48 + n mod 10)])"
  by pat_completeness auto
termination
  by (relation "measure id") auto

definition str_int :: "int \<Rightarrow> string" where
  "str_int i = (if i < 0 then CHR ''-'' # digits_of (nat (- i)) else digits_of (nat i))"

text \<open>
  \<^verbatim>\<open>re.search(r"/([AW]\d+)$", value)\<close>, scanning start positions from the left; the
  value has been stripped, so \<^verbatim>\<open>$\<close> is the end of the string.
\<close>

definition is_AW_digits :: "string \<Rightarrow> bool" where
  "is_AW_digits cs =
     (case cs of [] \<Rightarrow> False
      | a # ds \<Rightarrow> (a = CHR ''A'' \<or> a = CHR ''W'') \<and> ds \<noteq> [] \<and> list_all is_digit ds)"

fun search_short :: "string \<Rightarrow> string option" where
  "search_short [] = None"
| "search_short (c # cs) =
     (if c = CHR ''/'' \<and> is_AW_digits cs then Some cs else search_short cs)"

definition short_openalex_id :: "string option \<Rightarrow> string option" where
  "short_openalex_id openalex =
     (case openalex of
        None \<Rightarrow> None
      | Some s \<Rightarrow>
          if s = [] then None
          else let v = strip_where is_space s
               in (case search_short v of Some g \<Rightarrow> Some g | None \<Rightarrow> Some v))"

text \<open>Truthiness of an optional string: \<^verbatim>\<open>None\<close> and the empty string are falsy.\<close>

definition truthy :: "string option \<Rightarrow> bool" where
  "truthy v = (case v of None \<Rightarrow> False | Some s \<Rightarrow> s \<noteq> [])"

text \<open>An f-string renders \<^verbatim>\<open>None\<close> as the text None.\<close>

definition fmt_opt :: "string option \<Rightarrow> string" where
  "fmt_opt v = (case v of None \<Rightarrow> ''None'' | Some s \<Rightarrow> s)"

definition canonical_paper_id ::
  "string option \<Rightarrow> string option \<Rightarrow> string option \<Rightarrow> string option \<Rightarrow> int option \<Rightarrow> string" where
  "canonical_paper_id d a oa ttl yr =
     (if truthy d then ''doi:'' @ or_str d
      else if truthy a then ''arxiv:'' @ or_str a
      else if truthy oa then ''openalex:'' @ fmt_opt (short_openalex_id oa)
      else
        let title_key = strip_where (\<lambda>c. c = CHR ''-'')
              (sub_runs (\<lambda>c. \<not> is_lower_alnum c) (CHR ''-'') (lower (or_str ttl)))
        in ''title:'' @ title_key @ '':'' @
           (case yr of None \<Rightarrow> ''na'' | Some y \<Rightarrow> if y = 0 then ''na'' else str_int y))"

text \<open>\<^verbatim>\<open>re.match(r"10\.48550/arxiv\.", doi, re.IGNORECASE)\<close> on a truthy DOI.\<close>

definition is_arxiv_doi :: "string \<Rightarrow> bool" where
  "is_arxiv_doi d = (d \<noteq> [] \<and> lower (take 15 d) = ''10.48550/arxiv.'')"

section \<open>build_papers_db.py: merging two rows\<close>

text \<open>\<^verbatim>\<open>[v for v in (a, b) if v]\<close> for strings and for years.\<close>

fun truthy_strs :: "string option list \<Rightarrow> string list" where
  "truthy_strs [] = []"
| "truthy_strs (None # vs) = truthy_strs vs"
| "truthy_strs (Some s # vs) = (if s = [] then truthy_strs vs else s # truthy_strs vs)"

fun truthy_ints :: "int option list \<Rightarrow> int list" where
  "truthy_ints [] = []"
| "truthy_ints (None # vs) = truthy_ints vs"
| "truthy_ints (Some y # vs) = (if y = 0 then truthy_ints vs else y # truthy_ints vs)"

text \<open>\<^verbatim>\<open>sorted(v for v in set(xs) if P(v))\<close>.\<close>

definition sorted_where :: "(string \<Rightarrow> bool) \<Rightarrow> string list \<Rightarrow> string list" where
  "sorted_where P xs = sort (filter P (remdups xs))"

text \<open>\<^verbatim>\<open>max(xs)\<close> on a list the code has checked to be non-empty.\<close>

fun max_list :: "'a::linorder \<Rightarrow> 'a list \<Rightarrow> 'a" where
  "max_list best [] = best"
| "max_list best (x # xs) = max_list (if x > best then x else best) xs"

text \<open>
  \<^verbatim>\<open>merge_paper_rows\<close> updates \<^verbatim>\<open>existing\<close> in place, one group of keys after the
  other. Each group is a function from the row so far (and the incoming row) to the
  updated row. First the base swap and the aliases.
\<close>

definition merge_base :: "paper \<Rightarrow> paper \<Rightarrow> paper" where
  "merge_base existing incoming =
     (if or_real (relevance_score incoming) 0 > or_real (relevance_score existing) 0
      then incoming\<lparr>aliases := Some (sorted_where (\<lambda>a. a \<noteq> [] \<and> a \<noteq> paper_id incoming)
             (or_list (aliases existing) @ [paper_id existing] @ or_list (aliases incoming)))\<rparr>
      else existing\<lparr>aliases := Some (sorted_where (\<lambda>a. a \<noteq> [] \<and> a \<noteq> paper_id existing)
             (or_list (aliases existing) @ [paper_id incoming] @ or_list (aliases incoming)))\<rparr>)"

definition merge_counts :: "paper \<Rightarrow> paper \<Rightarrow> paper" where
  "merge_counts e incoming =
     e\<lparr>cited_by_count := Some (max (or_int (cited_by_count e) 0) (or_int (cited_by_count incoming) 0)),
       ss_cited_by_count :=
         Some (max (or_int (ss_cited_by_count e) 0) (or_int (ss_cited_by_count incoming) 0)),
       relevance_score :=
         Some (max (or_real (relevance_score e) 0) (or_real (relevance_score incoming) 0))\<rparr>"

definition merge_refs :: "paper \<Rightarrow> paper \<Rightarrow> paper" where
  "merge_refs e incoming =
     (if length (or_list (referenced_works incoming)) > length (or_list (referenced_works e))
      then e\<lparr>referenced_works := referenced_works incoming\<rparr> else e)"

definition union_field :: "string list option \<Rightarrow> string list option \<Rightarrow> string list option" where
  "union_field a b = Some (sorted_where (\<lambda>v. v \<noteq> []) (or_list a @ or_list b))"

definition merge_sets :: "paper \<Rightarrow> paper \<Rightarrow> paper" where
  "merge_sets e incoming =
     e\<lparr>authors := union_field (authors e) (authors incoming),
       tags := union_field (tags e) (tags incoming),
       relevance_reasons := union_field (relevance_reasons e) (relevance_reasons incoming),
       matched_queries := union_field (matched_queries e) (matched_queries incoming),
       source_types := union_field (source_types e) (source_types incoming)\<rparr>"

definition merge_doi :: "string list \<Rightarrow> paper \<Rightarrow> paper" where
  "merge_doi both_dois e =
     (case filter (\<lambda>d. \<not> is_arxiv_doi d) both_dois of
        d # _ \<Rightarrow> e\<lparr>doi := Some d\<rparr>
      | [] \<Rightarrow> (case both_dois of d # _ \<Rightarrow> e\<lparr>doi := Some d\<rparr> | [] \<Rightarrow> e))"

text \<open>\<^verbatim>\<open>if not existing.get(k) and both: existing[k] = both[0]\<close>.\<close>

definition fill :: "string option \<Rightarrow> string list \<Rightarrow> string option" where
  "fill cur both = (if \<not> truthy cur then (case both of b # _ \<Rightarrow> Some b | [] \<Rightarrow> cur) else cur)"

definition merge_fill :: "string list \<Rightarrow> string list \<Rightarrow> string list \<Rightarrow> string list \<Rightarrow> paper \<Rightarrow> paper" where
  "merge_fill both_arxiv both_openalex both_urls both_venues e =
     e\<lparr>arxiv_id := fill (arxiv_id e) both_arxiv,
       openalex_id := fill (openalex_id e) both_openalex,
       url := fill (url e) both_urls,
       venue := fill (venue e) both_venues\<rparr>"

definition merge_year :: "int list \<Rightarrow> paper \<Rightarrow> paper" where
  "merge_year both_years e =
     (case both_years of [] \<Rightarrow> e | y # ys \<Rightarrow> e\<lparr>year := Some (max_list y ys)\<rparr>)"

definition merge_id :: "paper \<Rightarrow> paper" where
  "merge_id e =
     (let new_id = canonical_paper_id (doi e) (arxiv_id e) (openalex_id e) (title e) (year e)
      in if new_id \<noteq> paper_id e
         then e\<lparr>aliases := Some (sorted_where (\<lambda>a. a \<noteq> [])
                   (removeAll new_id (or_list (aliases e) @ [paper_id e]))),
               paper_id := new_id\<rparr>
         else e)"

definition merge_paper_rows :: "paper \<Rightarrow> paper \<Rightarrow> paper" where
  "merge_paper_rows existing incoming =
     (let both_dois = truthy_strs [doi existing, doi incoming];
          both_years = truthy_ints [year existing, year incoming];
          both_arxiv = truthy_strs [arxiv_id existing, arxiv_id incoming];
          both_openalex = truthy_strs [openalex_id existing, openalex_id incoming];
          both_urls = truthy_strs [url existing, url incoming];
          both_venues = truthy_strs [venue existing, venue incoming]
      in merge_id
          (merge_year both_years
            (merge_fill both_arxiv both_openalex both_urls both_venues
              (merge_doi both_dois
                (merge_sets
                  (merge_refs
                    (merge_counts (merge_base existing incoming) incoming)
                    incoming)
                  incoming)))))"

section \<open>build_papers_db.py: deduplication\<close>

text \<open>
  The dictionary \<^verbatim>\<open>deduped\<close> keeps its keys in insertion order; it is an association
  list, updated in place when the key is present and extended at the end otherwise.
\<close>

fun upsert :: "string \<Rightarrow> paper \<Rightarrow> (string \<times> paper) list \<Rightarrow> (string \<times> paper) list" where
  "upsert k p [] = [(k, p)]"
| "upsert k p ((k', q) # rest) =
     (if k = k' then (k', merge_paper_rows q p) # rest else (k', q) # upsert k p rest)"

definition title_key :: "paper \<Rightarrow> string" where
  "title_key p = normalize_title_key (or_str (title p))"

definition dedupe_table :: "paper list \<Rightarrow> (string \<times> paper) list" where
  "dedupe_table papers = foldl (\<lambda>deduped p. upsert (title_key p) p deduped) [] papers"

definition dedupe_accepted_papers :: "paper list \<Rightarrow> paper list" where
  "dedupe_accepted_papers papers = map snd (dedupe_table papers)"

section \<open>Sample data\<close>

definition blank_paper :: paper where
  "blank_paper =
     \<lparr>paper_id = ''p0'', title = None, year = None, authors = None, venue = None, doi = None,
      arxiv_id = None, eprint_id = None, url = None, openalex_id = None,
      cited_by_count = None, ss_cited_by_count = None, referenced_works = None,
      work_type = None, abstract_text = None, concept_terms = None, keyword_terms = None,
      relevance_score = None, relevance_reasons = None, tags = None, matched_queries = None,
      source_types = None, source_label = None, seed_flag = None, aliases = None\<rparr>"

text \<open>
  Scenario A of the specification: a published row with a DOI and a preprint row with an
  arXiv id, whose titles have the same normalised key. The relevance score is a parameter.
\<close>

definition doi_row :: "real option \<Rightarrow> paper" where
  "doi_row s =
     blank_paper\<lparr>paper_id := ''doi:10.1000/x'', doi := Some ''10.1000/x'',
       title := Some ''Euler-Lagrange Equations in Elasticity'', year := Some 2020,
       cited_by_count := Some 5, relevance_score := s\<rparr>"

definition arxiv_row :: "real option \<Rightarrow> paper" where
  "arxiv_row s =
     blank_paper\<lparr>paper_id := ''arxiv:2001.00001'', arxiv_id := Some ''2001.00001'',
       title := Some ''Euler Lagrange equations in  elasticity.'', year := Some 2019,
       cited_by_count := Some 50, relevance_score := s\<rparr>"

text \<open>A published row, and a preprint row that already lists the published id as an alias.\<close>

definition published_row :: paper where
  "published_row = blank_paper\<lparr>paper_id := ''doi:10.1/a'', doi := Some ''10.1/a''\<rparr>"

definition preprint_row :: paper where
  "preprint_row =
     blank_paper\<lparr>paper_id := ''arxiv:1'', arxiv_id := Some ''1'', aliases := Some [''doi:10.1/a'']\<rparr>"

section \<open>The form of a merged row\<close>

text \<open>
  What \<^verbatim>\<open>merge_paper_rows\<close> leaves behind in every row it returns: the three counters
  are numbers, the set-valued keys and the aliases are sorted lists without duplicates and
  without empty strings, and the id is the canonical id of the row's identifier fields and
  is not an alias. A raw row that never met a duplicate need not have this form.
\<close>

definition clean_sorted :: "string list option \<Rightarrow> bool" where
  "clean_sorted v = (case v of None \<Rightarrow> False | Some xs \<Rightarrow> sorted xs \<and> distinct xs \<and> [] \<notin> set xs)"

definition merged_form :: "paper \<Rightarrow> bool" where
  "merged_form r =
     (cited_by_count r \<noteq> None \<and> ss_cited_by_count r \<noteq> None \<and> relevance_score r \<noteq> None
      \<and> clean_sorted (authors r) \<and> clean_sorted (tags r) \<and> clean_sorted (relevance_reasons r)
      \<and> clean_sorted (matched_queries r) \<and> clean_sorted (source_types r)
      \<and> clean_sorted (aliases r) \<and> paper_id r \<notin> set (or_list (aliases r))
      \<and> paper_id r = canonical_paper_id (doi r) (arxiv_id r) (openalex_id r) (title r) (year r))"

text \<open>A raw row that is alone under its title, with its authors in the order of the byline.\<close>

definition solo_row :: paper where
  "solo_row =
     blank_paper\<lparr>paper_id := ''doi:10.1/s'', doi := Some ''10.1/s'', title := Some ''Young Measures'',
       authors := Some [''Zed'', ''Adam'']\<rparr>"

section \<open>Order of arrival: what does not depend on it\<close>






section \<open>analyze.py: influence\<close>

text \<open>The exceptions the modelled code can raise.\<close>

datatype py_error = ValueError

text \<open>
  \<^verbatim>\<open>round(x, n)\<close>, idealised on the reals: the nearest multiple of \<open>10\<^sup>-\<^sup>n\<close>, a tie
  going to the even one.
\<close>

definition round_half_even :: "real \<Rightarrow> int" where
  "round_half_even x =
     (let f = \<lfloor>x\<rfloor>; d = x - of_int f
      in if d < 1 / 2 then f else if d > 1 / 2 then f + 1 else if even f then f else f + 1)"

definition round_to :: "nat \<Rightarrow> real \<Rightarrow> real" where
  "round_to n x = of_int (round_half_even (x * 10 ^ n)) / 10 ^ n"

text \<open>
  \<^verbatim>\<open>compute_influence\<close>. The counter \<^verbatim>\<open>in_corpus_citations\<close> is a function to the
  naturals, 0 where the key is absent. \<^verbatim>\<open>math.log1p(x)\<close> is \<open>ln (1 + x)\<close> and raises
  \<^verbatim>\<open>ValueError\<close> for \<open>x \<le> -1\<close>, which only the paper's own count can reach: the two
  other arguments of \<^verbatim>\<open>log1p\<close> are at least 1 and at least 0.
\<close>

definition compute_influence ::
  "'a paper_scheme \<Rightarrow> (string \<Rightarrow> nat) \<Rightarrow> int \<Rightarrow> real \<Rightarrow> py_error + real" where
  "compute_influence p in_corpus_citations max_citations max_relevance =
     (let cited = or_int (cited_by_count p) 0;
          relevance = or_real (relevance_score p) 0;
          in_corpus = in_corpus_citations (paper_id p);
          yr = or_int (year p) 1950
      in if cited \<le> - 1 then Inl ValueError
         else
           let cite_norm = ln (1 + of_int cited) / ln (1 + of_int (max max_citations 1));
               rel_norm = relevance / max max_relevance 1;
               in_corpus_norm = min (ln (1 + of_nat in_corpus) / ln (1 + 50)) 1;
               current_year = 2025;
               recency = max 0 (min 1 (of_int (yr - (current_year - 30)) / 30));
               inf = 0.4 * cite_norm + 0.3 * rel_norm + 0.2 * in_corpus_norm + 0.1 * recency
           in Inr (round_to 4 inf))"

text \<open>
  The loops of \<^verbatim>\<open>main\<close> that build the lookup table from OpenAlex identifiers to paper
  ids. \<^verbatim>\<open>alias.replace("openalex:", "")\<close> removes every occurrence of the prefix text.
\<close>

function remove_openalex :: "string \<Rightarrow> string" where
  "remove_openalex [] = []"
| "remove_openalex (c # cs) =
     (if take 9 (c # cs) = ''openalex:'' then remove_openalex (drop 9 (c # cs))
      else c # remove_openalex cs)"
  by pat_completeness auto
termination
  by (relation "measure length") auto

definition add_alias :: "string \<Rightarrow> (string \<rightharpoonup> string) \<Rightarrow> string \<Rightarrow> (string \<rightharpoonup> string)" where
  "add_alias pid tbl alias =
     (if take 9 alias = ''openalex:''
      then (case short_openalex_id (Some (remove_openalex alias)) of
              None \<Rightarrow> tbl
            | Some oa_short \<Rightarrow> if oa_short \<noteq> [] then tbl(oa_short \<mapsto> pid) else tbl)
      else tbl)"

definition add_paper_ids :: "(string \<rightharpoonup> string) \<Rightarrow> 'a paper_scheme \<Rightarrow> (string \<rightharpoonup> string)" where
  "add_paper_ids tbl p =
     (let tbl1 =
        (if truthy (openalex_id p)
         then (let oa = or_str (openalex_id p);
                   tbl0 = (case short_openalex_id (Some oa) of
                             None \<Rightarrow> tbl
                           | Some short \<Rightarrow> if short \<noteq> [] then tbl(short \<mapsto> paper_id p) else tbl)
               in tbl0(oa \<mapsto> paper_id p))
         else tbl)
      in foldl (add_alias (paper_id p)) tbl1 (or_list (aliases p)))"

definition build_lookup :: "'a paper_scheme list \<Rightarrow> (string \<rightharpoonup> string)" where
  "build_lookup papers = foldl add_paper_ids Map.empty papers"

text \<open>The loop of \<^verbatim>\<open>main\<close> that counts in-corpus citations, one per resolved reference.\<close>

definition count_refs ::
  "string set \<Rightarrow> (string \<rightharpoonup> string) \<Rightarrow> (string \<Rightarrow> nat) \<Rightarrow> 'a paper_scheme \<Rightarrow> (string \<Rightarrow> nat)" where
  "count_refs paper_ids tbl counter p =
     foldl (\<lambda>c ref_oa.
        case tbl ref_oa of
          None \<Rightarrow> c
        | Some target_id \<Rightarrow>
            if target_id \<noteq> [] \<and> target_id \<in> paper_ids \<and> target_id \<noteq> paper_id p
            then c(target_id := c target_id + 1) else c)
       counter (or_list (referenced_works p))"

definition in_corpus_citations :: "'a paper_scheme list \<Rightarrow> (string \<rightharpoonup> string) \<Rightarrow> (string \<Rightarrow> nat)" where
  "in_corpus_citations papers tbl =
     foldl (count_refs (set (map paper_id papers)) tbl) (\<lambda>_. 0) papers"

text \<open>
  \<^verbatim>\<open>max(... for p in papers) if papers else 1\<close>, for the citation counts and for the
  relevance scores.
\<close>

definition max_citations :: "'a paper_scheme list \<Rightarrow> int" where
  "max_citations papers =
     (case papers of [] \<Rightarrow> 1
      | p # ps \<Rightarrow> max_list (or_int (cited_by_count p) 0) (map (\<lambda>q. or_int (cited_by_count q) 0) ps))"

definition max_relevance :: "'a paper_scheme list \<Rightarrow> real" where
  "max_relevance papers =
     (case papers of [] \<Rightarrow> 1
      | p # ps \<Rightarrow> max_list (or_real (relevance_score p) 0) (map (\<lambda>q. or_real (relevance_score q) 0) ps))"

section \<open>analyze.py: layout seeding\<close>

text \<open>
  A paper of \<^verbatim>\<open>analyze.py\<close> after \<^verbatim>\<open>main\<close> has stored the derived keys
  \<^verbatim>\<open>_thread\<close> and \<^verbatim>\<open>_influence\<close> in it; \<open>None\<close> is a key not yet stored.
\<close>

record analyzed = paper +
  x_thread :: "string option"
  x_influence :: "real option"

text \<open>
  \<^verbatim>\<open>compute_warm_positions\<close>. Python's built-in \<^verbatim>\<open>hash\<close> on strings is the
  parameter \<open>hash\<close>: CPython salts it with a value drawn when the process starts, so it is a
  function fixed for one process and not by the program. \<^verbatim>\<open>min\<close> of an empty
  generator raises \<^verbatim>\<open>ValueError\<close>. The y coordinate is an integer, which
  \<^verbatim>\<open>round(y, 1)\<close> returns unchanged.
\<close>

fun min_list :: "'a::linorder \<Rightarrow> 'a list \<Rightarrow> 'a" where
  "min_list best [] = best"
| "min_list best (x # xs) = min_list (if x < best then x else best) xs"

definition warm_position ::
  "(string \<Rightarrow> int) \<Rightarrow> (string \<rightharpoonup> nat) \<Rightarrow> int \<Rightarrow> int \<Rightarrow> 'a analyzed_scheme \<Rightarrow> real \<times> int" where
  "warm_position hash thread_index year_min year_range p =
     (let yr = or_int (year p) 2000;
          thread = (case x_thread p of None \<Rightarrow> ''classical_calcvar'' | Some t \<Rightarrow> t);
          x = (of_int (yr - year_min) / of_int year_range) * 800 - 400;
          y = (case thread_index thread of None \<Rightarrow> 0 | Some i \<Rightarrow> int i * 100)
                + (hash (paper_id p) mod 60 - 30)
      in (round_to 1 x, y))"

definition compute_warm_positions ::
  "(string \<Rightarrow> int) \<Rightarrow> 'a analyzed_scheme list \<Rightarrow> string list
     \<Rightarrow> py_error + (string \<rightharpoonup> real \<times> int)" where
  "compute_warm_positions hash papers thread_order =
     (case papers of
        [] \<Rightarrow> Inl ValueError
      | p # ps \<Rightarrow>
          let years = map (\<lambda>q. or_int (year q) 2000) ps;
              year_min = min_list (or_int (year p) 2000) years;
              year_max = max_list (or_int (year p) 2000) years;
              year_range = max (year_max - year_min) 1
          in Inr (foldl (\<lambda>positions q.
                    positions(paper_id q \<mapsto>
                      warm_position hash (index_dict thread_order) year_min year_range q))
                  Map.empty papers))"

section \<open>analyze.py: the pipeline of main\<close>

text \<open>
  What \<^verbatim>\<open>main\<close> computes from the list of papers before it writes the four files: the
  papers with thread and influence, sorted by falling influence (Python's sort is stable,
  as \<open>sort_key\<close> is), the citation edges, the ids of the top papers of the core view with
  the edges among them, and the nodes and edges of the graph view with their seeded
  positions. The thread and author statistics and the co-author network, which contain no
  division, are not modelled. The result is \<open>Inr None\<close> when \<^verbatim>\<open>main\<close> returns at its
  guard without writing any file, \<open>Inr (Some v)\<close> when it writes the views, and \<open>Inl e\<close>
  when it raises.
\<close>

record graph_node =
  node_id :: string
  node_influence :: "real option"
  node_thread :: "string option"
  node_x :: real
  node_y :: int

record views =
  papers_view :: "analyzed list"
  citation_edges :: "edge list"
  core_ids :: "string list"
  core_graph_edges :: "edge list"
  graph_nodes :: "graph_node list"
  graph_edges :: "edge list"

definition with_thread :: "paper \<Rightarrow> analyzed" where
  "with_thread p = paper.extend p \<lparr>x_thread = Some (assign_thread p), x_influence = None\<rparr>"

fun with_influence ::
  "(string \<Rightarrow> nat) \<Rightarrow> int \<Rightarrow> real \<Rightarrow> analyzed list \<Rightarrow> py_error + analyzed list" where
  "with_influence icc mc mr [] = Inr []"
| "with_influence icc mc mr (p # ps) =
     (case compute_influence p icc mc mr of
        Inl e \<Rightarrow> Inl e
      | Inr v \<Rightarrow>
          (case with_influence icc mc mr ps of
             Inl e \<Rightarrow> Inl e
           | Inr qs \<Rightarrow> Inr (p\<lparr>x_influence := Some v\<rparr> # qs)))"

definition among :: "string list \<Rightarrow> edge list \<Rightarrow> edge list" where
  "among ids es = filter (\<lambda>e. edge_source e \<in> set ids \<and> edge_target e \<in> set ids) es"

definition main :: "(string \<Rightarrow> int) \<Rightarrow> nat \<Rightarrow> paper list \<Rightarrow> py_error + views option" where
  "main hash top_papers db_papers =
     (if db_papers = [] then Inr None
      else
        let oa_id_to_paper_id = build_lookup db_papers;
            threaded = map with_thread db_papers;
            icc = in_corpus_citations threaded oa_id_to_paper_id;
            mc = max_citations threaded;
            mr = max_relevance threaded
        in case with_influence icc mc mr threaded of
             Inl e \<Rightarrow> Inl e
           | Inr scored \<Rightarrow>
               let papers = sort_key (\<lambda>p. - or_real (x_influence p) 0) scored;
                   es = build_citation_graph papers oa_id_to_paper_id;
                   top_ids = map paper_id (take top_papers papers)
               in case compute_warm_positions hash (take 600 papers) THREAD_ORDER of
                    Inl e \<Rightarrow> Inl e
                  | Inr warm \<Rightarrow>
                      let nodes = map (\<lambda>p.
                            let (wx, wy) = (case warm (paper_id p) of None \<Rightarrow> (0, 0) | Some xy \<Rightarrow> xy)
                            in \<lparr>node_id = paper_id p, node_influence = x_influence p,
                                node_thread = x_thread p, node_x = wx, node_y = wy\<rparr>)
                            (take 600 papers)
                      in Inr (Some \<lparr>papers_view = papers, citation_edges = es, core_ids = top_ids,
                            core_graph_edges = among top_ids es, graph_nodes = nodes,
                            graph_edges = among (map node_id nodes) es\<rparr>))"

text \<open>
  Two string hashes standing for the built-in \<^verbatim>\<open>hash\<close> of two Python processes: a
  polynomial hash started from a salt.
\<close>

definition salted_hash :: "int \<Rightarrow> string \<Rightarrow> int" where
  "salted_hash salt s = foldl (\<lambda>h c. (h * 31 + of_char c) mod 2 ^ 61) salt s"

definition placed_paper :: analyzed where
  "placed_paper =
     paper.extend (blank_paper\<lparr>paper_id := ''doi:10.1/a'', year := Some 2000\<rparr>)
       \<lparr>x_thread = Some ''classical_calcvar'', x_influence = Some 0.5\<rparr>"

section \<open>build_papers_db.py: relevance scoring\<close>

text \<open>
  \<^verbatim>\<open>term_in_text\<close>. The regular expression built from a term is the lower-cased term,
  each of its characters literal, except that a space stands for one or more characters of
  \<^verbatim>\<open>[\s\-]\<close>. \<open>match_rests pat t\<close> lists what is left of \<open>t\<close> after each way of matching \<open>pat\<close>
  at its start. A term of one to four characters of \<^verbatim>\<open>[a-z0-9]\<close> is searched between
  word boundaries \<^verbatim>\<open>\b\<close> (no word character before or after the match), any other term
  with no character of \<^verbatim>\<open>[a-z0-9]\<close> before or after it.
\<close>

definition is_word_char :: "char \<Rightarrow> bool" where
  "is_word_char c =
     (let n = (of_char c :: nat)
      in (48 \<le> n \<and> n \<le> 57) \<or> (65 \<le> n \<and> n \<le> 90) \<or> (97 \<le> n \<and> n \<le> 122) \<or> n = 95
         \<or> n = 170 \<or> n = 178 \<or> n = 179 \<or> n = 181 \<or> n = 185 \<or> n = 186
         \<or> (188 \<le> n \<and> n \<le> 190) \<or> (192 \<le> n \<and> n \<le> 214) \<or> (216 \<le> n \<and> n \<le> 246)
         \<or> (248 \<le> n \<and> n \<le> 255))"

definition is_sep :: "char \<Rightarrow> bool" where
  "is_sep c = (is_space c \<or> c = CHR ''-'')"

fun sep_rests :: "string \<Rightarrow> string list" where
  "sep_rests [] = []"
| "sep_rests (d # ds) = (if is_sep d then ds # sep_rests ds else [])"

fun match_rests :: "string \<Rightarrow> string \<Rightarrow> string list" where
  "match_rests [] t = [t]"
| "match_rests (c # cs) t =
     (if c = CHR '' '' then concat (map (match_rests cs) (sep_rests t))
      else (case t of [] \<Rightarrow> [] | d # ds \<Rightarrow> if d = c then match_rests cs ds else []))"

definition match_at :: "(char \<Rightarrow> bool) \<Rightarrow> string \<Rightarrow> char option \<Rightarrow> string \<Rightarrow> bool" where
  "match_at bad pat prev t =
     ((case prev of None \<Rightarrow> True | Some c \<Rightarrow> \<not> bad c)
      \<and> list_ex (\<lambda>r. case r of [] \<Rightarrow> True | n # _ \<Rightarrow> \<not> bad n) (match_rests pat t))"

fun search_from :: "(char \<Rightarrow> bool) \<Rightarrow> string \<Rightarrow> char option \<Rightarrow> string \<Rightarrow> bool" where
  "search_from bad pat prev [] = match_at bad pat prev []"
| "search_from bad pat prev (c # cs) =
     (match_at bad pat prev (c # cs) \<or> search_from bad pat (Some c) cs)"

definition term_in_text :: "string \<Rightarrow> string \<Rightarrow> bool" where
  "term_in_text term txt =
     (let pat = lower term
      in if 1 \<le> length pat \<and> length pat \<le> 4 \<and> list_all is_lower_alnum pat
         then search_from is_word_char pat None txt
         else search_from is_lower_alnum pat None txt)"

text \<open>\<^verbatim>\<open>" ".join(xs)\<close> and the format \<^verbatim>\<open>{x:.1f}\<close>, idealised on the reals.\<close>

fun join_sp :: "string list \<Rightarrow> string" where
  "join_sp [] = []"
| "join_sp [x] = x"
| "join_sp (x # y # zs) = x @ '' '' @ join_sp (y # zs)"

definition fmt_1f :: "real \<Rightarrow> string" where
  "fmt_1f x =
     (let n = round_half_even (x * 10)
      in (if n < 0 then ''-'' else []) @ str_int (\<bar>n\<bar> div 10) @ ''.'' @ str_int (\<bar>n\<bar> mod 10))"

definition calcvar_terms :: "string list" where
  "calcvar_terms =
     [''calculus of variations'', ''variational method'', ''variational problem'',
      ''euler-lagrange'', ''euler lagrange'']"

definition core_variational :: "string list" where
  "core_variational =
     [''variational inequality'', ''variational formulation'', ''variational principle'',
      ''minimization problem'', ''energy functional'', ''functional minimization'']"

text \<open>\<^verbatim>\<open>DOMAIN_TERMS\<close>, in the order of the dictionary; code 246 is the o with diaeresis.\<close>

definition DOMAIN_TERMS :: "(string \<times> string list) list" where
  "DOMAIN_TERMS =
     [(''classical_calcvar'',
        [''euler-lagrange'', ''euler lagrange'', ''first variation'', ''second variation'',
         ''legendre condition'', ''weierstrass'', ''calculus of variations'',
         ''variational problem'', ''variational principle'']),
      (''direct_methods'',
        [''lower semicontinuity'', ''coercivity'', ''weak convergence'', ''sobolev'',
         ''reflexive'', ''direct method'', ''minimizing sequence'',
         ''weak lower semicontinuity'', ''existence theorem'', ''compactness'',
         ''weak topology'', ''functional analysis'', ''banach space'', ''morrey'',
         ''growth condition'']),
      (''regularity'',
        [''partial regularity'', (''h'' @ [CHR 0xF6] @ ''lder continuity''),
         ''holder continuity'', ''de giorgi'', ''moser'', ''nash'',
         ''regularity of minimizers'', ''elliptic regularity'', ''schauder'',
         (''h'' @ [CHR 0xF6] @ ''lder''), ''lipschitz'', ''harnack'',
         ''a priori estimates'', ''bootstrap'', ''blow-up'', ''singular set'',
         ''hausdorff dimension'', ''almgren'', ''regularity elliptic'', ''mingione'']),
      (''geometric'',
        [''minimal surfaces'', ''minimal surface'', ''harmonic maps'', ''harmonic map'',
         ''geodesics'', ''geodesic'', ''curvature flow'', ''plateau problem'',
         ''area functional'', ''willmore'', ''mean curvature'', ''ricci flow'',
         ''varifold'', ''current'', ''rectifiable'', ''geometric measure'',
         ''area minimizing'', ''stationary varifold'', ''constant mean curvature'']),
      (''optimal_control'',
        [''pontryagin'', ''bellman'', ''hamilton-jacobi'', ''hamilton jacobi'',
         ''viscosity solutions'', ''viscosity solution'', ''optimal control'',
         ''dynamic programming'']),
      (''convexity'',
        [''quasiconvexity'', ''quasiconvex'', ''polyconvexity'', ''polyconvex'',
         ''rank-one convexity'', ''rank one convexity'', ''relaxation'',
         ''young measures'', ''young measure'', ''convex integration'',
         ''nonlinear elasticity'', ''martensitic'', ''shape memory'', ''laminates'',
         ''rank-one connection'', ''tartar conjecture'', ''morrey conjecture'',
         ''differential inclusion'', ''rigidity estimate'']),
      (''gamma_convergence'',
        [''gamma-convergence'', ''gamma convergence'', ''homogenization'',
         ''thin structures'', ''dimension reduction'', ''asymptotic analysis'',
         ''energy scaling'', ''scaling law'', ''microstructure'', ''thin film'',
         ''epitaxial'', ''mosco convergence'', ''epi-convergence'', ''variational limit'',
         ''effective energy'', ''continuum limit'', ''discrete to continuum'',
         ''stochastic homogenization'']),
      (''optimal_transport'',
        [''wasserstein'', ''monge-kantorovich'', ''monge kantorovich'', ''brenier'',
         ''displacement convexity'', ''optimal transport'', ''mass transport'',
         ''kantorovich'', ''gradient flow'', ''jko scheme'', ''benamou-brenier'',
         ''entropic regularization'', ''sinkhorn'', ''wasserstein gradient'',
         ''otto calculus'']),
      (''free_discontinuity'',
        [''mumford-shah'', ''free discontinuity'', ''sbv'',
         ''special functions of bounded variation'', ''segmentation'',
         ''crack propagation'', ''fracture mechanics variational'', ''phase field'',
         ''ginzburg-landau'', ''allen-cahn'', ''cahn-hilliard'', ''sharp interface limit'',
         ''diffuse interface'', ''modica-mortola''])]"

text \<open>One round of the loop over \<^verbatim>\<open>DOMAIN_TERMS.items()\<close>.\<close>

definition domain_step ::
  "string \<Rightarrow> real \<times> string list \<times> string list \<times> nat \<Rightarrow> string \<times> string list
     \<Rightarrow> real \<times> string list \<times> string list \<times> nat" where
  "domain_step txt state entry =
     (let (score, reasons, tgs, matched_domains) = state;
          (domain, terms) = entry;
          matches = filter (\<lambda>term. term_in_text term txt) terms
      in if matches \<noteq> []
         then (let domain_points = min 3 (0.8 * real (length (remdups matches)))
               in (score + domain_points,
                   reasons @ [''domain_'' @ domain @ ''(+'' @ fmt_1f domain_points @ '')''],
                   tgs @ [domain], matched_domains + 1))
         else state)"

text \<open>
  \<^verbatim>\<open>score_paper\<close> after its gate on the year: \<open>yr\<close> is the year, \<open>txt\<close> the text put
  together from title, abstract, concepts and keywords. The tags are collected in a list
  and returned as \<^verbatim>\<open>sorted(tags)\<close> of the set. The authors are read with
  \<^verbatim>\<open>paper.get("authors", [])\<close>: \<open>None\<close> is the absent key, which gives the empty
  list; a stored \<^verbatim>\<open>None\<close>, on which the loop over the authors would raise
  \<^verbatim>\<open>TypeError\<close>, is outside the type. The points are added on the reals: the sum
  is exact, where the floating-point sum of the code can differ from it in the last digits.
\<close>

definition score_signals ::
  "'a paper_scheme \<Rightarrow> string set \<Rightarrow> string \<Rightarrow> int \<Rightarrow> real \<times> string list \<times> string list \<times> nat" where
  "score_signals p known_researchers txt yr =
     (let has_calcvar = list_ex (\<lambda>term. term_in_text term txt) calcvar_terms;
          (s1, r1, t1) =
            (if has_calcvar then (6, [''mentions_calcvar(+6)''], [''classical_calcvar''])
             else (0, [], []));
          core_matches = length (filter (\<lambda>term. term_in_text term txt) core_variational);
          (s2, r2, t2) =
            (if core_matches > 0
             then (let core_pts = min 4 (1.5 * real core_matches)
                   in (s1 + core_pts, r1 @ [''core_variational(+'' @ fmt_1f core_pts @ '')''],
                       t1 @ [''classical_calcvar'']))
             else (s1, r1, t1));
          (s3, r3, t3, matched_domains) = foldl (domain_step txt) (s2, r2, t2, 0) DOMAIN_TERMS;
          matched_authors = filter (\<lambda>author. lower author \<in> known_researchers) (or_list (authors p));
          (s4, r4, t4) =
            (if matched_authors \<noteq> []
             then (let author_points = min 6 (2 * real (length (remdups matched_authors)))
                   in (s3 + author_points,
                       r3 @ [''known_researcher(+'' @ fmt_1f author_points @ '')''],
                       t3 @ [''known-authors'']))
             else (s3, r3, t3));
          cited_by = or_int (cited_by_count p) 0;
          (s5, r5) =
            (if cited_by \<ge> 200 then (s4 + 2, r4 @ [''high_citations_200(+2)''])
             else if cited_by \<ge> 50 then (s4 + 1, r4 @ [''citations_50(+1)''])
             else (s4, r4));
          (s6, r6) =
            (if \<not> has_calcvar \<and> matched_domains < 2 \<and> matched_authors = []
             then (s5 - 4, r5 @ [''weak_calcvar_signal(-4)''])
             else (s5, r5));
          (s7, r7) =
            (if yr \<noteq> 0 \<and> yr < 1980 \<and> cited_by \<ge> 100
             then (s6 + 1.5, r6 @ [''landmark_classic(+1.5)''])
             else (s6, r6))
      in (s7, r7, sort (remdups t4), matched_domains))"

definition score_paper ::
  "'a paper_scheme \<Rightarrow> string set \<Rightarrow> int \<Rightarrow> real \<times> string list \<times> string list \<times> nat" where
  "score_paper p known_researchers min_year =
     (let ttl = lower (or_str (title p));
          abstract = lower (or_str (abstract_text p));
          concepts = join_sp (or_list (concept_terms p));
          keywords = join_sp (or_list (keyword_terms p));
          txt = join_sp [ttl, abstract, concepts, keywords]
      in case year p of
           None \<Rightarrow> (- 999, [''below_min_year''], [], 0)
         | Some yr \<Rightarrow>
             if yr < min_year then (- 999, [''below_min_year''], [], 0)
             else score_signals p known_researchers txt yr)"

text \<open>A recent paper whose only signal is one domain term in its title.\<close>

definition sbv_paper :: paper where
  "sbv_paper = blank_paper\<lparr>title := Some ''SBV'', year := Some 2020, cited_by_count := Some 60\<rparr>"

section \<open>Thread assignment: properties\<close>

lemma THREAD_PRIORITY_dom: "THREAD_PRIORITY t \<noteq> None \<longleftrightarrow> t \<in> set THREAD_ORDER"
  by (simp add: THREAD_PRIORITY_def index_dict_def THREAD_ORDER_def enumerate_eq_zip upt_rec)

lemma min_key_mem: "min_key f b xs \<in> insert b (set xs)"
  by (induction xs arbitrary: b) auto

lemma min_key_le_best: "f (min_key f b xs) \<le> f b"
proof (induction xs arbitrary: b)
  case Nil
  show ?case by simp
next
  case (Cons x xs)
  have "f (min_key f (if f x < f b then x else b) xs) \<le> f (if f x < f b then x else b)"
    by (rule Cons.IH)
  then show ?case by (simp split: if_splits)
qed

lemma min_key_least: "t \<in> insert b (set xs) \<Longrightarrow> f (min_key f b xs) \<le> f t"
proof (induction xs arbitrary: b)
  case Nil
  then show ?case by simp
next
  case (Cons x xs)
  let ?b = "if f x < f b then x else b"
  have le_b: "f (min_key f ?b xs) \<le> f ?b" by (rule min_key_le_best)
  show ?case
  proof (cases "t \<in> set xs")
    case True
    then have "f (min_key f ?b xs) \<le> f t" by (intro Cons.IH) simp
    then show ?thesis by simp
  next
    case False
    with Cons.prems have "t = b \<or> t = x" by auto
    with le_b show ?thesis by (auto split: if_splits)
  qed
qed

lemma set_specific_of:
  "set (specific_of p) = {t \<in> set (or_list (tags p)). t \<in> set THREAD_ORDER \<and> t \<noteq> ''classical_calcvar''}"
proof -
  have "\<And>t. (\<exists>i. THREAD_PRIORITY t = Some i) \<longleftrightarrow> t \<in> set THREAD_ORDER"
    using THREAD_PRIORITY_dom by (metis not_None_eq)
  then show ?thesis by (auto simp: specific_of_def)
qed

lemma assign_thread_specific:
  "assign_thread p =
     (case specific_of p of [] \<Rightarrow> ''classical_calcvar'' | s # rest \<Rightarrow> min_key priority_of s rest)"
proof (cases "or_list (tags p) = []")
  case True
  then show ?thesis by (simp add: assign_thread_def specific_of_def)
next
  case False
  show ?thesis
  proof (cases "filter (\<lambda>t. THREAD_PRIORITY t \<noteq> None) (or_list (tags p)) = []")
    case True
    with False show ?thesis by (simp add: assign_thread_def specific_of_def Let_def)
  next
    case nonempty: False
    with False show ?thesis by (simp add: assign_thread_def specific_of_def Let_def)
  qed
qed

lemma priority_direct_methods: "priority_of ''direct_methods'' = 1"
  by (simp add: priority_of_def THREAD_PRIORITY_def index_dict_def THREAD_ORDER_def
      enumerate_eq_zip upt_rec)

lemma priority_specific_pos:
  assumes "t \<in> set THREAD_ORDER" "t \<noteq> ''classical_calcvar''"
  shows "1 \<le> priority_of t"
  using assms
  by (auto simp: priority_of_def THREAD_PRIORITY_def index_dict_def THREAD_ORDER_def
      enumerate_eq_zip upt_rec)

lemma priority_of_index:
  "i < length THREAD_ORDER \<Longrightarrow> priority_of (THREAD_ORDER ! i) = i"
proof -
  assume "i < length THREAD_ORDER"
  then have "i \<in> {0, 1, 2, 3, 4, 5, 6, 7, 8}"
    by (auto simp: THREAD_ORDER_def)
  then show ?thesis
    by (auto simp: priority_of_def THREAD_PRIORITY_def index_dict_def THREAD_ORDER_def
        enumerate_eq_zip upt_rec)
qed

text \<open>
  C7. For every paper, \<open>assign_thread\<close> returns a member of the fixed enumeration
  \<open>THREAD_ORDER\<close>. It returns the fallback \<open>classical_calcvar\<close> when the tag list holds
  no recognised tag other than the fallback; otherwise it returns one of the recognised
  non-fallback tags of the paper, and none of them has a smaller priority index. A paper
  whose tags are exactly \<open>direct_methods\<close> and \<open>classical_calcvar\<close> gets \<open>direct_methods\<close>.
  (\<open>priority_of\<close> is the position in \<open>THREAD_ORDER\<close>, lemma \<open>priority_of_index\<close>.)
\<close>

theorem assign_thread_domain_priority:
  "assign_thread p \<in> set THREAD_ORDER
   \<and> ({t \<in> set (or_list (tags p)). t \<in> set THREAD_ORDER \<and> t \<noteq> ''classical_calcvar''} = {}
        \<longrightarrow> assign_thread p = ''classical_calcvar'')
   \<and> ({t \<in> set (or_list (tags p)). t \<in> set THREAD_ORDER \<and> t \<noteq> ''classical_calcvar''} \<noteq> {}
        \<longrightarrow> assign_thread p \<in> {t \<in> set (or_list (tags p)). t \<in> set THREAD_ORDER \<and> t \<noteq> ''classical_calcvar''}
          \<and> (\<forall>t \<in> {t \<in> set (or_list (tags p)). t \<in> set THREAD_ORDER \<and> t \<noteq> ''classical_calcvar''}.
                priority_of (assign_thread p) \<le> priority_of t))
   \<and> (set (or_list (tags p)) = {''direct_methods'', ''classical_calcvar''}
        \<longrightarrow> assign_thread p = ''direct_methods'')"
proof -
  let ?S = "{t \<in> set (or_list (tags p)). t \<in> set THREAD_ORDER \<and> t \<noteq> ''classical_calcvar''}"
  have S: "set (specific_of p) = ?S" by (rule set_specific_of)
  have empty: "?S = {} \<Longrightarrow> assign_thread p = ''classical_calcvar''"
  proof -
    assume "?S = {}"
    with S have "specific_of p = []" by simp
    then show ?thesis by (simp add: assign_thread_specific)
  qed
  have nonempty: "assign_thread p \<in> ?S \<and> (\<forall>t \<in> ?S. priority_of (assign_thread p) \<le> priority_of t)"
    if ne: "?S \<noteq> {}"
  proof -
    from ne S obtain s rest where sp: "specific_of p = s # rest"
      by (cases "specific_of p") auto
    then have at: "assign_thread p = min_key priority_of s rest"
      by (simp add: assign_thread_specific)
    have "min_key priority_of s rest \<in> set (specific_of p)"
      using min_key_mem [of priority_of s rest] sp by simp
    moreover have "\<forall>t \<in> set (specific_of p). priority_of (min_key priority_of s rest) \<le> priority_of t"
      using min_key_least [of _ s rest priority_of] sp by simp
    ultimately show ?thesis using at S by simp
  qed
  have member: "assign_thread p \<in> set THREAD_ORDER"
  proof (cases "?S = {}")
    case True
    then show ?thesis using empty by (simp add: THREAD_ORDER_def)
  next
    case False
    then show ?thesis using nonempty by blast
  qed
  have example: "assign_thread p = ''direct_methods''"
    if tg: "set (or_list (tags p)) = {''direct_methods'', ''classical_calcvar''}"
  proof -
    have dm: "''direct_methods'' \<in> set THREAD_ORDER" by (simp add: THREAD_ORDER_def)
    have "?S = {''direct_methods''}" using tg dm by auto
    with nonempty show ?thesis by auto
  qed
  show ?thesis using member empty nonempty example by blast
qed

theorem assign_thread_domain_priority_witness:
  "set (or_list (tags (blank_paper\<lparr>tags := Some [''direct_methods'', ''classical_calcvar'']\<rparr>)))
     = {''direct_methods'', ''classical_calcvar''}
   \<and> assign_thread (blank_paper\<lparr>tags := Some [''direct_methods'', ''classical_calcvar'']\<rparr>)
     = ''direct_methods''
   \<and> assign_thread (blank_paper\<lparr>tags := Some [''direct_methods'', ''classical_calcvar'']\<rparr>)
     \<in> set THREAD_ORDER"
proof -
  let ?p = "blank_paper\<lparr>tags := Some [''direct_methods'', ''classical_calcvar'']\<rparr>"
  have h: "set (or_list (tags ?p)) = {''direct_methods'', ''classical_calcvar''}"
    by (simp add: or_list_def)
  from assign_thread_domain_priority [of ?p] h
  have "assign_thread ?p = ''direct_methods''" and "assign_thread ?p \<in> set THREAD_ORDER"
    by blast+
  with h show ?thesis by blast
qed

section \<open>Citation graph: properties\<close>

lemma edges_of_valid:
  "e \<in> set (edges_of ids tbl p) \<Longrightarrow>
     edge_source e = paper_id p \<and> edge_target e \<in> ids \<and> edge_target e \<noteq> paper_id p"
  by (auto simp: edges_of_def split: option.splits if_splits)

text \<open>
  C6. For every corpus and every lookup table, each edge emitted by
  \<open>build_citation_graph\<close> has a source different from its target, and both are ids of
  papers of the corpus.
\<close>

theorem build_citation_graph_valid:
  "\<forall>e \<in> set (build_citation_graph papers tbl).
     edge_source e \<noteq> edge_target e
     \<and> edge_source e \<in> paper_id ` set papers
     \<and> edge_target e \<in> paper_id ` set papers"
proof
  fix e
  assume "e \<in> set (build_citation_graph papers tbl)"
  then obtain p where p: "p \<in> set papers"
    and e: "e \<in> set (edges_of (set (map paper_id papers)) tbl p)"
    by (auto simp: build_citation_graph_def)
  from edges_of_valid [OF e] p
  show "edge_source e \<noteq> edge_target e
     \<and> edge_source e \<in> paper_id ` set papers
     \<and> edge_target e \<in> paper_id ` set papers"
    by auto
qed

theorem build_citation_graph_valid_witness:
  "\<lparr>edge_source = ''A'', edge_target = ''B''\<rparr>
     \<in> set (build_citation_graph
         [blank_paper\<lparr>paper_id := ''A'', referenced_works := Some [''W2'', ''W1'', ''W9'']\<rparr>,
          blank_paper\<lparr>paper_id := ''B''\<rparr>]
         [''W1'' \<mapsto> ''A'', ''W2'' \<mapsto> ''B''])
   \<and> edge_source \<lparr>edge_source = ''A'', edge_target = ''B''\<rparr>
       \<noteq> edge_target \<lparr>edge_source = ''A'', edge_target = ''B''\<rparr>
   \<and> edge_target \<lparr>edge_source = ''A'', edge_target = ''B''\<rparr>
       \<in> paper_id ` set [blank_paper\<lparr>paper_id := ''A'', referenced_works := Some [''W2'', ''W1'', ''W9'']\<rparr>,
          blank_paper\<lparr>paper_id := ''B''\<rparr>]"
proof -
  let ?ps = "[blank_paper\<lparr>paper_id := ''A'', referenced_works := Some [''W2'', ''W1'', ''W9'']\<rparr>,
          blank_paper\<lparr>paper_id := ''B''\<rparr>]"
  let ?tbl = "[''W1'' \<mapsto> ''A'', ''W2'' \<mapsto> ''B'']"
  let ?e = "\<lparr>edge_source = ''A'', edge_target = ''B''\<rparr>"
  have mem: "?e \<in> set (build_citation_graph ?ps ?tbl)"
    by (simp add: build_citation_graph_def edges_of_def or_list_def)
  from build_citation_graph_valid [of ?ps ?tbl] mem
  have "edge_source ?e \<noteq> edge_target ?e \<and> edge_target ?e \<in> paper_id ` set ?ps"
    by blast
  with mem show ?thesis by blast
qed

section \<open>Merging: aliases\<close>

lemma set_sorted_where: "set (sorted_where P xs) = {x \<in> set xs. P x}"
  by (auto simp: sorted_where_def)

lemma merge_counts_keep:
  "aliases (merge_counts e i) = aliases e" "paper_id (merge_counts e i) = paper_id e"
  by (simp_all add: merge_counts_def)

lemma merge_refs_keep:
  "aliases (merge_refs e i) = aliases e" "paper_id (merge_refs e i) = paper_id e"
  by (simp_all add: merge_refs_def)

lemma merge_sets_keep:
  "aliases (merge_sets e i) = aliases e" "paper_id (merge_sets e i) = paper_id e"
  by (simp_all add: merge_sets_def)

lemma merge_doi_keep:
  "aliases (merge_doi ds e) = aliases e" "paper_id (merge_doi ds e) = paper_id e"
  by (simp_all add: merge_doi_def split: list.splits)

lemma merge_fill_keep:
  "aliases (merge_fill a b c d e) = aliases e" "paper_id (merge_fill a b c d e) = paper_id e"
  by (simp_all add: merge_fill_def)

lemma merge_year_keep:
  "aliases (merge_year ys e) = aliases e" "paper_id (merge_year ys e) = paper_id e"
  by (simp_all add: merge_year_def split: list.splits)

lemmas merge_keep = merge_counts_keep merge_refs_keep merge_sets_keep merge_doi_keep
  merge_fill_keep merge_year_keep

lemma merge_id_aliases:
  "set (or_list (aliases (merge_id x))) =
     (if paper_id (merge_id x) = paper_id x then set (or_list (aliases x))
      else (set (or_list (aliases x)) \<union> {paper_id x}) - {[], paper_id (merge_id x)})"
  by (auto simp: merge_id_def Let_def set_sorted_where or_list_def)

lemma merge_base_aliases:
  "set (or_list (aliases (merge_base e i))) =
     (set (or_list (aliases e)) \<union> set (or_list (aliases i)) \<union> {paper_id e, paper_id i})
       - {[], paper_id (merge_base e i)}"
  by (auto simp: merge_base_def set_sorted_where or_list_def)

lemma merge_base_id: "paper_id (merge_base e i) \<in> {paper_id e, paper_id i}"
  by (simp add: merge_base_def)

lemma merge_aliases_set:
  "paper_id (merge_paper_rows e i) \<notin> set (or_list (aliases (merge_paper_rows e i)))
   \<and> set (or_list (aliases (merge_paper_rows e i))) =
       (set (or_list (aliases e)) \<union> set (or_list (aliases i)) \<union> {paper_id e, paper_id i})
         - {[], paper_id (merge_paper_rows e i)}"
proof -
  obtain x where m: "merge_paper_rows e i = merge_id x"
    and al: "aliases x = aliases (merge_base e i)"
    and pid: "paper_id x = paper_id (merge_base e i)"
    by (simp add: merge_paper_rows_def Let_def merge_keep)
  have base: "set (or_list (aliases x)) =
     (set (or_list (aliases e)) \<union> set (or_list (aliases i)) \<union> {paper_id e, paper_id i})
       - {[], paper_id x}"
    using merge_base_aliases [of e i] al pid by simp
  have "paper_id x \<in> {paper_id e, paper_id i}"
    using merge_base_id [of e i] pid by simp
  then show ?thesis
    unfolding m using merge_id_aliases [of x] base
    by (auto split: if_splits)
qed

text \<open>
  C4, as the code has it. The row produced by \<open>merge_paper_rows\<close> never lists its own id
  among its aliases, whatever the inputs. Its aliases are exactly the non-empty
  identifiers among the ids and the aliases of the two inputs, other than its own id: an
  alias of an input is kept unless it is the empty string or has become the id of the
  merged row.
\<close>

theorem merge_aliases_exact:
  "paper_id (merge_paper_rows e i) \<notin> set (or_list (aliases (merge_paper_rows e i)))
   \<and> set (or_list (aliases (merge_paper_rows e i))) =
       (set (or_list (aliases e)) \<union> set (or_list (aliases i)) \<union> {paper_id e, paper_id i})
         - {[], paper_id (merge_paper_rows e i)}"
  by (rule merge_aliases_set)

theorem merge_aliases_exact_witness:
  "paper_id (merge_paper_rows published_row preprint_row) = ''doi:10.1/a''
   \<and> set (or_list (aliases (merge_paper_rows published_row preprint_row))) = {''arxiv:1''}"
proof -
  have pid: "paper_id (merge_paper_rows published_row preprint_row) = ''doi:10.1/a''"
    by code_simp
  have ins: "set (or_list (aliases published_row)) \<union> set (or_list (aliases preprint_row))
       \<union> {paper_id published_row, paper_id preprint_row} = {''doi:10.1/a'', ''arxiv:1''}"
    by (auto simp: published_row_def preprint_row_def blank_paper_def or_list_def)
  have "set (or_list (aliases (merge_paper_rows published_row preprint_row))) =
      {''doi:10.1/a'', ''arxiv:1''} - {[], ''doi:10.1/a''}"
    using merge_aliases_exact [of published_row preprint_row] unfolding pid ins by blast
  then show ?thesis using pid by auto
qed

text \<open>
  C4 as stated fails: both rows satisfy the invariant, the identifier \<open>doi:10.1/a\<close> is an
  alias of the incoming row, and it is not an alias of the merged row (it is its id).
\<close>

theorem merge_aliases_removed_counterexample:
  "paper_id published_row \<notin> set (or_list (aliases published_row))
   \<and> paper_id preprint_row \<notin> set (or_list (aliases preprint_row))
   \<and> ''doi:10.1/a'' \<in> set (or_list (aliases preprint_row))
   \<and> ''doi:10.1/a'' \<notin> set (or_list (aliases (merge_paper_rows published_row preprint_row)))"
  by code_simp

section \<open>Scenario A\<close>

lemma title_key_doi_row: "title_key (doi_row s) = ''euler lagrange equations in elasticity''"
proof -
  have "normalize_title_key ''Euler-Lagrange Equations in Elasticity''
      = ''euler lagrange equations in elasticity''"
    by code_simp
  then show ?thesis by (simp add: title_key_def doi_row_def or_str_def)
qed

lemma title_key_arxiv_row: "title_key (arxiv_row s) = ''euler lagrange equations in elasticity''"
proof -
  have "normalize_title_key ''Euler Lagrange equations in  elasticity.''
      = ''euler lagrange equations in elasticity''"
    by code_simp
  then show ?thesis by (simp add: title_key_def arxiv_row_def or_str_def)
qed

lemma sorted_where_single: "sorted_where P [x] = (if P x then [x] else [])"
  by (simp add: sorted_where_def)

lemma sorted_where_Nil: "sorted_where P [] = []"
  by (simp add: sorted_where_def)

lemmas merge_unfold = merge_paper_rows_def Let_def merge_base_def or_list_def
  sorted_where_single sorted_where_Nil merge_counts_def or_int_def merge_refs_def
  merge_sets_def union_field_def merge_doi_def is_arxiv_doi_def lower_def merge_fill_def
  fill_def truthy_def merge_year_def merge_id_def canonical_paper_id_def or_str_def

lemma merge_doi_arxiv:
  "paper_id (merge_paper_rows (doi_row s1) (arxiv_row s2)) = ''doi:10.1000/x''
   \<and> year (merge_paper_rows (doi_row s1) (arxiv_row s2)) = Some 2020
   \<and> cited_by_count (merge_paper_rows (doi_row s1) (arxiv_row s2)) = Some 50
   \<and> aliases (merge_paper_rows (doi_row s1) (arxiv_row s2)) = Some [''arxiv:2001.00001'']"
proof (cases "or_real s2 0 > or_real s1 0")
  case True
  then show ?thesis
    by (simp add: merge_unfold doi_row_def arxiv_row_def blank_paper_def)
next
  case False
  then show ?thesis
    by (simp add: merge_unfold doi_row_def arxiv_row_def blank_paper_def)
qed

lemma merge_arxiv_doi:
  "paper_id (merge_paper_rows (arxiv_row sp) (doi_row sd)) = ''doi:10.1000/x''
   \<and> year (merge_paper_rows (arxiv_row sp) (doi_row sd)) = Some 2020
   \<and> aliases (merge_paper_rows (arxiv_row sp) (doi_row sd)) = Some [''arxiv:2001.00001'']"
proof (cases "or_real sd 0 > or_real sp 0")
  case True
  then show ?thesis
    by (simp add: merge_unfold doi_row_def arxiv_row_def blank_paper_def)
next
  case False
  then show ?thesis
    by (simp add: merge_unfold doi_row_def arxiv_row_def blank_paper_def)
qed

lemma dedupe_pair:
  "title_key a = title_key b \<Longrightarrow> dedupe_accepted_papers [a, b] = [merge_paper_rows a b]"
  by (simp add: dedupe_accepted_papers_def dedupe_table_def)

text \<open>
  C3, as the code has it. Whatever the relevance scores of the two rows of scenario A:
  deduplicated in the order of the specification, the DOI row first, they give one
  canonical row with id \<open>doi:10.1000/x\<close>, year 2020, cited_by_count 50 and the single alias
  \<open>arxiv:2001.00001\<close>; deduplicated with the preprint row first, they give one canonical row
  with the same id, the same year and the same aliases. The preprint id is an alias, the DOI
  id is the canonical id and therefore not an alias, so the id and the aliases together
  hold both original ids. Nothing is said of cited_by_count when the preprint row comes
  first.
\<close>

theorem scenario_A_merge:
  "map paper_id (dedupe_accepted_papers [doi_row s1, arxiv_row s2]) = [''doi:10.1000/x'']
   \<and> map year (dedupe_accepted_papers [doi_row s1, arxiv_row s2]) = [Some 2020]
   \<and> map cited_by_count (dedupe_accepted_papers [doi_row s1, arxiv_row s2]) = [Some 50]
   \<and> map aliases (dedupe_accepted_papers [doi_row s1, arxiv_row s2]) = [Some [''arxiv:2001.00001'']]
   \<and> map paper_id (dedupe_accepted_papers [arxiv_row s2, doi_row s1]) = [''doi:10.1000/x'']
   \<and> map year (dedupe_accepted_papers [arxiv_row s2, doi_row s1]) = [Some 2020]
   \<and> map aliases (dedupe_accepted_papers [arxiv_row s2, doi_row s1]) = [Some [''arxiv:2001.00001'']]"
proof -
  have k: "title_key (doi_row s1) = title_key (arxiv_row s2)"
    by (simp add: title_key_doi_row title_key_arxiv_row)
  have fwd: "dedupe_accepted_papers [doi_row s1, arxiv_row s2]
      = [merge_paper_rows (doi_row s1) (arxiv_row s2)]"
    using k by (rule dedupe_pair)
  have bwd: "dedupe_accepted_papers [arxiv_row s2, doi_row s1]
      = [merge_paper_rows (arxiv_row s2) (doi_row s1)]"
    using k [symmetric] by (rule dedupe_pair)
  show ?thesis
    unfolding fwd bwd using merge_doi_arxiv [of s1 s2] merge_arxiv_doi [where sd = s1 and sp = s2]
    by simp
qed

theorem scenario_A_merge_witness:
  "map cited_by_count (dedupe_accepted_papers [doi_row (Some 2), arxiv_row (Some 1)]) = [Some 50]
   \<and> map paper_id (dedupe_accepted_papers [arxiv_row (Some 1), doi_row (Some 2)]) = [''doi:10.1000/x'']
   \<and> map year (dedupe_accepted_papers [arxiv_row (Some 1), doi_row (Some 2)]) = [Some 2020]
   \<and> map aliases (dedupe_accepted_papers [arxiv_row (Some 1), doi_row (Some 2)])
       = [Some [''arxiv:2001.00001'']]"
  using scenario_A_merge [of "Some 2" "Some 1"] by blast

text \<open>
  C3 as stated fails: with no relevance scores, in the order of the specification, the
  aliases of the canonical row are the preprint id alone, so they do not contain both
  original ids.
\<close>

theorem scenario_A_aliases_counterexample:
  "map aliases (dedupe_accepted_papers [doi_row None, arxiv_row None])
     = [Some [''arxiv:2001.00001'']]
   \<and> ''doi:10.1000/x'' \<notin> set [''arxiv:2001.00001'']"
  by code_simp

text \<open>
  The base swap. When the incoming row has the strictly greater relevance score,
  \<^verbatim>\<open>merge_paper_rows\<close> replaces the contents of \<^verbatim>\<open>existing\<close> by those of the incoming
  row before it takes the maximum of the two citation counts, so the maximum is taken of
  the incoming count with itself and the count of the replaced row is lost. The comment at
  the head of the function says the values are collected before the swap can clobber them,
  and the path without a swap does take the maximum of both; the citation count is not
  among the values collected. With the preprint row first and the greater score on the DOI
  row, the count is 5.
\<close>

lemma base_swap_loses_count:
  "map cited_by_count (dedupe_accepted_papers [arxiv_row (Some 1), doi_row (Some 2)]) = [Some 5]"
  by code_simp

section \<open>Merging: the merged form\<close>

lemma sorted_where_props:
  "sorted (sorted_where P xs)" "distinct (sorted_where P xs)"
  by (simp_all add: sorted_where_def)

lemma sorted_where_fix:
  assumes "sorted ys" "distinct ys" "set ys = {x \<in> set xs. P x}"
  shows "sorted_where P xs = ys"
proof -
  have "set (sorted_where P xs) = set ys" using assms(3) by (simp add: set_sorted_where)
  then show ?thesis
    using sorted_where_props [of P xs] assms(1,2) by (metis sorted_distinct_set_unique)
qed

lemma clean_sorted_union: "clean_sorted (union_field a b)"
  by (simp add: clean_sorted_def union_field_def sorted_where_props set_sorted_where)

lemma union_field_self: "clean_sorted a \<Longrightarrow> union_field a a = a"
  by (cases a) (auto simp: clean_sorted_def union_field_def or_list_def intro!: sorted_where_fix)

lemma merge_self:
  assumes "merged_form r"
  shows "merge_paper_rows r r = r"
proof -
  from assms obtain al where al: "aliases r = Some al" "sorted al" "distinct al" "[] \<notin> set al"
    "paper_id r \<notin> set al"
    by (cases "aliases r") (auto simp: merged_form_def clean_sorted_def or_list_def)
  have "sorted_where (\<lambda>a. a \<noteq> [] \<and> a \<noteq> paper_id r) (al @ [paper_id r] @ al) = al"
    using al by (intro sorted_where_fix) auto
  then have base: "merge_base r r = r"
    using al by (simp add: merge_base_def or_list_def)
  have counts: "merge_counts r r = r"
    using assms by (auto simp: merge_counts_def merged_form_def or_int_def or_real_def)
  have refs: "merge_refs r r = r" by (simp add: merge_refs_def)
  have sets: "merge_sets r r = r"
    using assms by (simp add: merge_sets_def merged_form_def union_field_self)
  have doi: "merge_doi (truthy_strs [doi r, doi r]) r = r"
    by (cases "doi r") (auto simp: merge_doi_def)
  have fill: "fill v (truthy_strs [v, v]) = v" for v
    by (cases v) (auto simp: fill_def truthy_def)
  have fills: "merge_fill (truthy_strs [arxiv_id r, arxiv_id r]) (truthy_strs [openalex_id r, openalex_id r])
      (truthy_strs [url r, url r]) (truthy_strs [venue r, venue r]) r = r"
    by (simp add: merge_fill_def fill)
  have yr: "merge_year (truthy_ints [year r, year r]) r = r"
    by (cases "year r") (auto simp: merge_year_def)
  have mid: "merge_id r = r"
    using assms by (simp add: merge_id_def merged_form_def Let_def)
  show ?thesis
    by (simp add: merge_paper_rows_def Let_def base counts refs sets doi fills yr mid)
qed

text \<open>What each later stage leaves alone.\<close>

lemma merge_id_same:
  "cited_by_count (merge_id x) = cited_by_count x"
  "ss_cited_by_count (merge_id x) = ss_cited_by_count x"
  "relevance_score (merge_id x) = relevance_score x"
  "authors (merge_id x) = authors x" "tags (merge_id x) = tags x"
  "relevance_reasons (merge_id x) = relevance_reasons x"
  "matched_queries (merge_id x) = matched_queries x"
  "source_types (merge_id x) = source_types x" "title (merge_id x) = title x"
  by (simp_all add: merge_id_def Let_def)

lemma merge_year_same:
  "cited_by_count (merge_year ys x) = cited_by_count x"
  "ss_cited_by_count (merge_year ys x) = ss_cited_by_count x"
  "relevance_score (merge_year ys x) = relevance_score x"
  "authors (merge_year ys x) = authors x" "tags (merge_year ys x) = tags x"
  "relevance_reasons (merge_year ys x) = relevance_reasons x"
  "matched_queries (merge_year ys x) = matched_queries x"
  "source_types (merge_year ys x) = source_types x" "title (merge_year ys x) = title x"
  by (simp_all add: merge_year_def split: list.splits)

lemma merge_fill_same:
  "cited_by_count (merge_fill a b c d x) = cited_by_count x"
  "ss_cited_by_count (merge_fill a b c d x) = ss_cited_by_count x"
  "relevance_score (merge_fill a b c d x) = relevance_score x"
  "authors (merge_fill a b c d x) = authors x" "tags (merge_fill a b c d x) = tags x"
  "relevance_reasons (merge_fill a b c d x) = relevance_reasons x"
  "matched_queries (merge_fill a b c d x) = matched_queries x"
  "source_types (merge_fill a b c d x) = source_types x" "title (merge_fill a b c d x) = title x"
  by (simp_all add: merge_fill_def)

lemma merge_doi_same:
  "cited_by_count (merge_doi ds x) = cited_by_count x"
  "ss_cited_by_count (merge_doi ds x) = ss_cited_by_count x"
  "relevance_score (merge_doi ds x) = relevance_score x"
  "authors (merge_doi ds x) = authors x" "tags (merge_doi ds x) = tags x"
  "relevance_reasons (merge_doi ds x) = relevance_reasons x"
  "matched_queries (merge_doi ds x) = matched_queries x"
  "source_types (merge_doi ds x) = source_types x" "title (merge_doi ds x) = title x"
  by (simp_all add: merge_doi_def split: list.splits)

lemma merge_sets_same:
  "cited_by_count (merge_sets x i) = cited_by_count x"
  "ss_cited_by_count (merge_sets x i) = ss_cited_by_count x"
  "relevance_score (merge_sets x i) = relevance_score x"
  "title (merge_sets x i) = title x"
  "authors (merge_sets x i) = union_field (authors x) (authors i)"
  "tags (merge_sets x i) = union_field (tags x) (tags i)"
  "relevance_reasons (merge_sets x i) = union_field (relevance_reasons x) (relevance_reasons i)"
  "matched_queries (merge_sets x i) = union_field (matched_queries x) (matched_queries i)"
  "source_types (merge_sets x i) = union_field (source_types x) (source_types i)"
  by (simp_all add: merge_sets_def)

lemma merge_refs_same:
  "cited_by_count (merge_refs x i) = cited_by_count x"
  "ss_cited_by_count (merge_refs x i) = ss_cited_by_count x"
  "relevance_score (merge_refs x i) = relevance_score x"
  "title (merge_refs x i) = title x"
  by (simp_all add: merge_refs_def)

lemma merge_counts_same:
  "cited_by_count (merge_counts x i) = Some (max (or_int (cited_by_count x) 0) (or_int (cited_by_count i) 0))"
  "ss_cited_by_count (merge_counts x i) = Some (max (or_int (ss_cited_by_count x) 0) (or_int (ss_cited_by_count i) 0))"
  "relevance_score (merge_counts x i) = Some (max (or_real (relevance_score x) 0) (or_real (relevance_score i) 0))"
  "title (merge_counts x i) = title x"
  by (simp_all add: merge_counts_def)

lemmas merge_same = merge_id_same merge_year_same merge_fill_same merge_doi_same
  merge_sets_same merge_refs_same merge_counts_same

lemma merge_counts_Some:
  "cited_by_count (merge_paper_rows e i) \<noteq> None"
  "ss_cited_by_count (merge_paper_rows e i) \<noteq> None"
  "relevance_score (merge_paper_rows e i) \<noteq> None"
  by (simp_all add: merge_paper_rows_def Let_def merge_same)

lemma merge_sets_clean:
  "clean_sorted (authors (merge_paper_rows e i))"
  "clean_sorted (tags (merge_paper_rows e i))"
  "clean_sorted (relevance_reasons (merge_paper_rows e i))"
  "clean_sorted (matched_queries (merge_paper_rows e i))"
  "clean_sorted (source_types (merge_paper_rows e i))"
  by (simp_all add: merge_paper_rows_def Let_def merge_same clean_sorted_union)

lemma merge_id_canonical:
  "paper_id (merge_id x) = canonical_paper_id (doi (merge_id x)) (arxiv_id (merge_id x))
     (openalex_id (merge_id x)) (title (merge_id x)) (year (merge_id x))"
  by (simp add: merge_id_def Let_def)

lemma clean_sorted_where: "[] \<notin> {x. P x} \<Longrightarrow> clean_sorted (Some (sorted_where P xs))"
  by (auto simp add: clean_sorted_def sorted_where_props set_sorted_where)

lemma merge_base_clean: "clean_sorted (aliases (merge_base e i))"
  by (simp add: merge_base_def clean_sorted_where)

lemma merge_id_clean: "clean_sorted (aliases x) \<Longrightarrow> clean_sorted (aliases (merge_id x))"
  by (simp add: merge_id_def Let_def clean_sorted_where)

lemma merge_aliases_clean: "clean_sorted (aliases (merge_paper_rows e i))"
  unfolding merge_paper_rows_def Let_def
  by (rule merge_id_clean) (simp add: merge_keep merge_base_clean)

section \<open>Deduplication: the table and a second round\<close>

lemma merged_form_merge: "merged_form (merge_paper_rows e i)"
proof -
  have "paper_id (merge_paper_rows e i) = canonical_paper_id (doi (merge_paper_rows e i))
     (arxiv_id (merge_paper_rows e i)) (openalex_id (merge_paper_rows e i))
     (title (merge_paper_rows e i)) (year (merge_paper_rows e i))"
    unfolding merge_paper_rows_def Let_def by (rule merge_id_canonical)
  then show ?thesis
    unfolding merged_form_def
    using merge_counts_Some [of e i] merge_sets_clean [of e i] merge_aliases_clean [of e i]
      merge_aliases_set [of e i]
    by blast
qed

lemma merge_base_title: "title (merge_base e i) = title e \<or> title (merge_base e i) = title i"
  by (simp add: merge_base_def)

lemma merge_title: "title (merge_paper_rows e i) = title e \<or> title (merge_paper_rows e i) = title i"
  using merge_base_title [of e i] by (simp add: merge_paper_rows_def Let_def merge_same)

lemma merge_title_key:
  "title_key e = k \<Longrightarrow> title_key i = k \<Longrightarrow> title_key (merge_paper_rows e i) = k"
  using merge_title [of e i] by (auto simp: title_key_def)

text \<open>The table as a lookup.\<close>

lemma map_of_upsert:
  "map_of (upsert k p T) =
     (map_of T)(k \<mapsto> (case map_of T k of None \<Rightarrow> p | Some q \<Rightarrow> merge_paper_rows q p))"
  by (induction T) (auto simp: fun_eq_iff)

lemma upsert_miss: "k \<notin> fst ` set T \<Longrightarrow> upsert k p T = T @ [(k, p)]"
  by (induction T) auto

lemma keys_upsert_hit: "k \<in> fst ` set T \<Longrightarrow> map fst (upsert k p T) = map fst T"
proof (induction T)
  case Nil
  then show ?case by simp
next
  case (Cons a T)
  obtain k' q where a: "a = (k', q)" by (cases a)
  show ?case
  proof (cases "k = k'")
    case True
    then show ?thesis by (simp add: a)
  next
    case False
    with Cons.prems a have "k \<in> fst ` set T" by auto
    with Cons.IH False a show ?thesis by simp
  qed
qed

lemma keys_upsert:
  "map fst (upsert k p T) = (if k \<in> fst ` set T then map fst T else map fst T @ [k])"
  by (simp add: keys_upsert_hit upsert_miss)

lemma dedupe_table_snoc:
  "dedupe_table (X @ [p]) = upsert (title_key p) p (dedupe_table X)"
  by (simp add: dedupe_table_def)

lemma dedupe_table_keys:
  "distinct (map fst (dedupe_table X)) \<and> fst ` set (dedupe_table X) = title_key ` set X"
proof (induction X rule: rev_induct)
  case Nil
  show ?case by (simp add: dedupe_table_def)
next
  case (snoc p X)
  then show ?case
    by (auto simp: dedupe_table_snoc keys_upsert simp flip: set_map)
qed

lemma upsert_hit:
  "k \<notin> fst ` set T1 \<Longrightarrow>
     upsert k p (T1 @ (k, q) # T2) = T1 @ (k, merge_paper_rows q p) # T2"
  by (induction T1) auto

lemma fold_fresh:
  "distinct (map title_key B) \<Longrightarrow> title_key ` set B \<inter> fst ` set T = {} \<Longrightarrow>
     foldl (\<lambda>d p. upsert (title_key p) p d) T B = T @ map (\<lambda>p. (title_key p, p)) B"
proof (induction B arbitrary: T)
  case Nil
  show ?case by simp
next
  case (Cons b B)
  have miss: "upsert (title_key b) b T = T @ [(title_key b, b)]"
    using Cons.prems by (intro upsert_miss) auto
  have "foldl (\<lambda>d p. upsert (title_key p) p d) (T @ [(title_key b, b)]) B
      = (T @ [(title_key b, b)]) @ map (\<lambda>p. (title_key p, p)) B"
    using Cons.prems by (intro Cons.IH) auto
  then show ?case by (simp add: miss)
qed

lemma fold_again:
  "distinct (map title_key (A @ B)) \<Longrightarrow>
     foldl (\<lambda>d p. upsert (title_key p) p d)
       (map (\<lambda>p. (title_key p, merge_paper_rows p p)) A @ map (\<lambda>p. (title_key p, p)) B) B
     = map (\<lambda>p. (title_key p, merge_paper_rows p p)) (A @ B)"
proof (induction B arbitrary: A)
  case Nil
  show ?case by simp
next
  case (Cons b B)
  have notin: "title_key b \<notin> fst ` set (map (\<lambda>p. (title_key p, merge_paper_rows p p)) A)"
    using Cons.prems by (auto simp: image_iff)
  have hit: "upsert (title_key b) b
      (map (\<lambda>p. (title_key p, merge_paper_rows p p)) A @ (title_key b, b) # map (\<lambda>p. (title_key p, p)) B)
     = map (\<lambda>p. (title_key p, merge_paper_rows p p)) A @ (title_key b, merge_paper_rows b b)
         # map (\<lambda>p. (title_key p, p)) B"
    using notin by (rule upsert_hit)
  have "foldl (\<lambda>d p. upsert (title_key p) p d)
       (map (\<lambda>p. (title_key p, merge_paper_rows p p)) (A @ [b]) @ map (\<lambda>p. (title_key p, p)) B) B
     = map (\<lambda>p. (title_key p, merge_paper_rows p p)) ((A @ [b]) @ B)"
    using Cons.prems by (intro Cons.IH) simp
  then show ?case using hit by simp
qed

lemma dedupe_twice:
  assumes "distinct (map title_key D)"
  shows "dedupe_accepted_papers (D @ D) = map (\<lambda>p. merge_paper_rows p p) D"
proof -
  have first: "foldl (\<lambda>d p. upsert (title_key p) p d) [] D = map (\<lambda>p. (title_key p, p)) D"
    using fold_fresh [of D "[]"] assms by simp
  have "dedupe_table (D @ D) = map (\<lambda>p. (title_key p, merge_paper_rows p p)) D"
    using fold_again [of "[]" D] assms by (simp add: dedupe_table_def first)
  then show ?thesis by (simp add: dedupe_accepted_papers_def comp_def)
qed

lemma dedupe_table_entries:
  "(k, q) \<in> set (dedupe_table X) \<Longrightarrow> title_key q = k"
proof (induction X arbitrary: k q rule: rev_induct)
  case Nil
  then show ?case by (simp add: dedupe_table_def)
next
  case (snoc p X)
  let ?T = "dedupe_table X"
  have d: "distinct (map fst ?T)" using dedupe_table_keys by blast
  have d': "distinct (map fst (upsert (title_key p) p ?T))"
    using dedupe_table_keys [of "X @ [p]"] by (simp add: dedupe_table_snoc)
  from snoc.prems have "map_of (upsert (title_key p) p ?T) k = Some q"
    using d' by (simp add: dedupe_table_snoc)
  then have cases: "(k = title_key p \<and> q = (case map_of ?T k of None \<Rightarrow> p | Some q' \<Rightarrow> merge_paper_rows q' p))
      \<or> (k \<noteq> title_key p \<and> map_of ?T k = Some q)"
    by (auto simp: map_of_upsert split: if_splits)
  show ?case
  proof (cases "k = title_key p")
    case True
    show ?thesis
    proof (cases "map_of ?T k")
      case None
      with cases True show ?thesis by simp
    next
      case (Some q')
      then have "title_key q' = k" using snoc.IH by (meson map_of_SomeD)
      with cases True Some show ?thesis by (simp add: merge_title_key)
    qed
  next
    case False
    with cases have "(k, q) \<in> set ?T" by (auto dest: map_of_SomeD)
    then show ?thesis by (rule snoc.IH)
  qed
qed

lemma dedupe_distinct_keys: "distinct (map title_key (dedupe_accepted_papers X))"
proof -
  have "map title_key (dedupe_accepted_papers X) = map fst (dedupe_table X)"
    unfolding dedupe_accepted_papers_def map_map
    by (rule map_cong) (auto simp: dedupe_table_entries)
  then show ?thesis using dedupe_table_keys by simp
qed

text \<open>
  C1, as the code has it. Let \<open>D\<close> be a paper set produced by \<open>dedupe_accepted_papers\<close>.
  If every row of \<open>D\<close> has the form that \<open>merge_paper_rows\<close> leaves behind (as every row
  that came out of a merge has, lemma \<open>merged_form_merge\<close>), then deduplicating \<open>D\<close>
  concatenated with itself gives \<open>D\<close> again: same rows, same ids, same field values, same
  aliases. In any case every row of the second result has that form, so one more round
  changes nothing.
\<close>

theorem dedupe_idempotent_on_merged:
  "((\<forall>r \<in> set (dedupe_accepted_papers X). merged_form r) \<longrightarrow>
      dedupe_accepted_papers (dedupe_accepted_papers X @ dedupe_accepted_papers X)
        = dedupe_accepted_papers X)
   \<and> (\<forall>r \<in> set (dedupe_accepted_papers (dedupe_accepted_papers X @ dedupe_accepted_papers X)).
        merged_form r)"
proof -
  let ?D = "dedupe_accepted_papers X"
  have twice: "dedupe_accepted_papers (?D @ ?D) = map (\<lambda>p. merge_paper_rows p p) ?D"
    using dedupe_distinct_keys by (rule dedupe_twice)
  have same: "dedupe_accepted_papers (?D @ ?D) = ?D" if mf: "\<forall>r \<in> set ?D. merged_form r"
  proof -
    have "map (\<lambda>p. merge_paper_rows p p) ?D = ?D" using mf by (simp add: merge_self map_idI)
    with twice show ?thesis by simp
  qed
  have form: "\<forall>r \<in> set (dedupe_accepted_papers (?D @ ?D)). merged_form r"
    unfolding twice by (auto simp: merged_form_merge)
  show ?thesis using same form by blast
qed

theorem dedupe_idempotent_on_merged_witness:
  "list_all merged_form (dedupe_accepted_papers [doi_row None, arxiv_row None])
   \<and> dedupe_accepted_papers
        (dedupe_accepted_papers [doi_row None, arxiv_row None]
          @ dedupe_accepted_papers [doi_row None, arxiv_row None])
      = dedupe_accepted_papers [doi_row None, arxiv_row None]"
proof -
  have k: "title_key (doi_row None) = title_key (arxiv_row None)"
    by (simp add: title_key_doi_row title_key_arxiv_row)
  have d: "dedupe_accepted_papers [doi_row None, arxiv_row None]
      = [merge_paper_rows (doi_row None) (arxiv_row None)]"
    using k by (rule dedupe_pair)
  have h: "\<forall>r \<in> set (dedupe_accepted_papers [doi_row None, arxiv_row None]). merged_form r"
    unfolding d by (simp add: merged_form_merge)
  from dedupe_idempotent_on_merged [of "[doi_row None, arxiv_row None]"] h
  have "dedupe_accepted_papers
        (dedupe_accepted_papers [doi_row None, arxiv_row None]
          @ dedupe_accepted_papers [doi_row None, arxiv_row None])
      = dedupe_accepted_papers [doi_row None, arxiv_row None]"
    by blast
  with h show ?thesis by (simp add: list_all_iff)
qed

text \<open>
  C1 as stated fails on a raw row that is alone under its title: the first deduplication
  returns it as it is, with its authors in byline order, and the second one, which merges
  it with itself, sorts the authors (and sets the missing counters to zero).
\<close>

theorem dedupe_not_idempotent_counterexample:
  "map authors (dedupe_accepted_papers [solo_row]) = [Some [''Zed'', ''Adam'']]
   \<and> map authors (dedupe_accepted_papers
        (dedupe_accepted_papers [solo_row] @ dedupe_accepted_papers [solo_row]))
      = [Some [''Adam'', ''Zed'']]
   \<and> map cited_by_count (dedupe_accepted_papers [solo_row]) = [None]
   \<and> map cited_by_count (dedupe_accepted_papers
        (dedupe_accepted_papers [solo_row] @ dedupe_accepted_papers [solo_row]))
      = [Some 0]"
  by code_simp

section \<open>Deduplication: order of arrival\<close>























section \<open>Influence: bounds\<close>

lemma max_list_ge_best: "b \<le> max_list b xs"
proof (induction xs arbitrary: b)
  case Nil
  show ?case by simp
next
  case (Cons x xs)
  have "(if b < x then x else b) \<le> max_list (if b < x then x else b) xs" by (rule Cons.IH)
  then show ?case by (auto split: if_splits)
qed

lemma max_list_ge: "x \<in> set (b # xs) \<Longrightarrow> x \<le> max_list b xs"
proof (induction xs arbitrary: b)
  case Nil
  then show ?case by simp
next
  case (Cons y ys)
  let ?b = "if b < y then y else b"
  have best: "?b \<le> max_list ?b ys" by (rule max_list_ge_best)
  show ?case
  proof (cases "x \<in> set ys")
    case True
    then have "x \<le> max_list ?b ys" by (intro Cons.IH) simp
    then show ?thesis by simp
  next
    case False
    with Cons.prems have "x = b \<or> x = y" by auto
    with best show ?thesis by (auto split: if_splits)
  qed
qed

lemma cited_le_max:
  "p \<in> set papers \<Longrightarrow> or_int (cited_by_count p) 0 \<le> max_citations papers"
proof (cases papers)
  case Nil
  assume "p \<in> set papers"
  with Nil show ?thesis by simp
next
  case (Cons q qs)
  assume "p \<in> set papers"
  with Cons have "or_int (cited_by_count p) 0
      \<in> set (or_int (cited_by_count q) 0 # map (\<lambda>r. or_int (cited_by_count r) 0) qs)"
    by auto
  then show ?thesis unfolding max_citations_def Cons by (simp only: list.case) (rule max_list_ge)
qed

lemma relevance_le_max:
  "p \<in> set papers \<Longrightarrow> or_real (relevance_score p) 0 \<le> max_relevance papers"
proof (cases papers)
  case Nil
  assume "p \<in> set papers"
  with Nil show ?thesis by simp
next
  case (Cons q qs)
  assume "p \<in> set papers"
  with Cons have "or_real (relevance_score p) 0
      \<in> set (or_real (relevance_score q) 0 # map (\<lambda>r. or_real (relevance_score r) 0) qs)"
    by auto
  then show ?thesis unfolding max_relevance_def Cons by (simp only: list.case) (rule max_list_ge)
qed

lemma round_half_even_bounds:
  assumes "of_int a \<le> x" "x \<le> of_int b"
  shows "a \<le> round_half_even x \<and> round_half_even x \<le> b"
proof -
  let ?f = "\<lfloor>x\<rfloor>"
  have lo: "a \<le> ?f" using assms(1) by (simp add: le_floor_iff)
  have hi: "?f \<le> b" using assms(2) by (simp add: floor_le_iff)
  have up: "?f + 1 \<le> b" if "x - of_int ?f \<ge> 1 / 2"
  proof -
    from that have "of_int ?f < x" by linarith
    with assms(2) have "of_int ?f < (of_int b :: real)" by linarith
    then show ?thesis by simp
  qed
  show ?thesis
    using lo hi up unfolding round_half_even_def Let_def
    by (auto split: if_splits)
qed

lemma round_to_unit: "0 \<le> x \<Longrightarrow> x \<le> 1 \<Longrightarrow> 0 \<le> round_to n x \<and> round_to n x \<le> 1"
proof -
  assume x: "0 \<le> x" "x \<le> 1"
  have "of_int 0 \<le> x * 10 ^ n" using x by simp
  moreover have "x * 10 ^ n \<le> of_int (10 ^ n)"
    using x by (simp add: mult_left_le_one_le)
  ultimately have b: "0 \<le> round_half_even (x * 10 ^ n) \<and> round_half_even (x * 10 ^ n) \<le> 10 ^ n"
    by (rule round_half_even_bounds)
  then have "(0::real) \<le> of_int (round_half_even (x * 10 ^ n))"
    and "(of_int (round_half_even (x * 10 ^ n)) :: real) \<le> 10 ^ n"
    by (simp, metis of_int_le_iff of_int_numeral of_int_power)
  then show ?thesis by (simp add: round_to_def divide_le_eq_1)
qed

lemma weighted_unit:
  fixes a b c d :: real
  assumes "0 \<le> a" "a \<le> 1" "0 \<le> b" "b \<le> 1" "0 \<le> c" "c \<le> 1" "0 \<le> d" "d \<le> 1"
  shows "0 \<le> 0.4 * a + 0.3 * b + 0.2 * c + 0.1 * d \<and> 0.4 * a + 0.3 * b + 0.2 * c + 0.1 * d \<le> 1"
  using assms by auto

lemma ln_ratio_unit:
  fixes c m :: real
  assumes "0 \<le> c" "c \<le> m" "1 \<le> m"
  shows "0 \<le> ln (1 + c) / ln (1 + m) \<and> ln (1 + c) / ln (1 + m) \<le> 1"
proof -
  have pos: "0 < ln (1 + m)" using assms by simp
  have "0 \<le> ln (1 + c)" using assms by simp
  moreover have "ln (1 + c) \<le> ln (1 + m)" using assms by simp
  ultimately show ?thesis using pos by simp
qed

text \<open>
  C5. For every paper of the corpus whose \<^verbatim>\<open>cited_by_count\<close> and
  \<^verbatim>\<open>relevance_score\<close> are not negative, \<open>compute_influence\<close>, called as \<^verbatim>\<open>main\<close>
  calls it (with the in-corpus counter and the two maxima computed over that same corpus),
  returns a value between 0 and 1. The in-corpus count is a counter value and so never
  negative. Floats are idealised as reals.
\<close>

theorem compute_influence_unit:
  assumes "p \<in> set papers"
    and "0 \<le> or_int (cited_by_count p) 0"
    and "0 \<le> or_real (relevance_score p) 0"
  shows "\<exists>v. compute_influence p (in_corpus_citations papers tbl) (max_citations papers)
            (max_relevance papers) = Inr v \<and> 0 \<le> v \<and> v \<le> 1"
proof -
  let ?cited = "or_int (cited_by_count p) 0"
  let ?rel = "or_real (relevance_score p) 0"
  let ?n = "in_corpus_citations papers tbl (paper_id p)"
  let ?yr = "or_int (year p) 1950"
  let ?a = "ln (1 + of_int ?cited) / ln (1 + of_int (max (max_citations papers) 1)) :: real"
  let ?b = "?rel / max (max_relevance papers) 1 :: real"
  let ?c = "min (ln (1 + of_nat ?n) / ln (1 + 50)) (1::real)"
  let ?d = "max 0 (min 1 (of_int (?yr - (2025 - 30)) / 30)) :: real"
  have nc: "(?cited \<le> - 1) = False" using assms(2) by simp
  have cm: "?cited \<le> max (max_citations papers) 1"
    using cited_le_max [OF assms(1)] by simp
  have a: "0 \<le> ?a \<and> ?a \<le> 1"
    using assms(2) cm by (intro ln_ratio_unit) simp_all
  have rm: "?rel \<le> max (max_relevance papers) 1"
    using relevance_le_max [OF assms(1)] by simp
  have mpos: "0 < max (max_relevance papers) 1" by simp
  have b: "0 \<le> ?b \<and> ?b \<le> 1"
    using assms(3) rm mpos by (simp add: divide_le_eq_1 del: less_max_iff_disj)
  have "0 \<le> ln (1 + of_nat ?n) / ln (1 + 50 :: real)" by simp
  then have c: "0 \<le> ?c \<and> ?c \<le> 1" by simp
  have d: "0 \<le> ?d \<and> ?d \<le> 1" by simp
  have w: "0 \<le> 0.4 * ?a + 0.3 * ?b + 0.2 * ?c + 0.1 * ?d
      \<and> 0.4 * ?a + 0.3 * ?b + 0.2 * ?c + 0.1 * ?d \<le> 1"
    using a b c d by (intro weighted_unit) simp_all
  have r: "0 \<le> round_to 4 (0.4 * ?a + 0.3 * ?b + 0.2 * ?c + 0.1 * ?d)
      \<and> round_to 4 (0.4 * ?a + 0.3 * ?b + 0.2 * ?c + 0.1 * ?d) \<le> 1"
    using w by (intro round_to_unit) simp_all
  have "compute_influence p (in_corpus_citations papers tbl) (max_citations papers)
      (max_relevance papers) = Inr (round_to 4 (0.4 * ?a + 0.3 * ?b + 0.2 * ?c + 0.1 * ?d))"
    unfolding compute_influence_def Let_def nc if_False by (rule refl)
  with r show ?thesis by blast
qed

theorem compute_influence_unit_witness:
  "blank_paper\<lparr>cited_by_count := Some 5, relevance_score := Some 3\<rparr>
      \<in> set [blank_paper\<lparr>cited_by_count := Some 5, relevance_score := Some 3\<rparr>]
   \<and> 0 \<le> or_int (cited_by_count (blank_paper\<lparr>cited_by_count := Some 5, relevance_score := Some 3\<rparr>)) 0
   \<and> 0 \<le> or_real (relevance_score (blank_paper\<lparr>cited_by_count := Some 5, relevance_score := Some 3\<rparr>)) 0
   \<and> (\<exists>v. compute_influence (blank_paper\<lparr>cited_by_count := Some 5, relevance_score := Some 3\<rparr>)
          (in_corpus_citations [blank_paper\<lparr>cited_by_count := Some 5, relevance_score := Some 3\<rparr>] Map.empty)
          (max_citations [blank_paper\<lparr>cited_by_count := Some 5, relevance_score := Some 3\<rparr>])
          (max_relevance [blank_paper\<lparr>cited_by_count := Some 5, relevance_score := Some 3\<rparr>]) = Inr v
        \<and> 0 \<le> v \<and> v \<le> 1)"
proof -
  let ?p = "blank_paper\<lparr>cited_by_count := Some 5, relevance_score := Some 3\<rparr>"
  have m: "?p \<in> set [?p]" by simp
  have c: "0 \<le> or_int (cited_by_count ?p) 0" by (simp add: or_int_def)
  have r: "0 \<le> or_real (relevance_score ?p) 0" by (simp add: or_real_def)
  from compute_influence_unit [OF m c r, of Map.empty] m c r show ?thesis by blast
qed

section \<open>Layout seeding and the empty corpus\<close>

text \<open>
  C8. The seeded position of a paper depends on the string hash of the process. For the
  same paper, the same thread order and two different salts of the hash, the y coordinates
  differ (\<open>-10\<close> and \<open>-9\<close>): two runs of \<open>compute_warm_positions\<close> in two processes need
  not agree.
\<close>

theorem warm_positions_depend_on_hash:
  "(case compute_warm_positions (salted_hash 0) [placed_paper] THREAD_ORDER of
      Inl e \<Rightarrow> None | Inr m \<Rightarrow> m ''doi:10.1/a'') = Some (- 400, - 10)
   \<and> (case compute_warm_positions (salted_hash 1) [placed_paper] THREAD_ORDER of
      Inl e \<Rightarrow> None | Inr m \<Rightarrow> m ''doi:10.1/a'') = Some (- 400, - 9)"
  by code_simp

text \<open>
  C9, as the code has it. On an empty list of papers \<open>main\<close> returns at its guard: no
  normalisation formula is evaluated, nothing is divided, and no output view is written,
  not even an empty one. (\<open>compute_warm_positions\<close> on an empty list would raise
  \<^verbatim>\<open>ValueError\<close>; the guard keeps \<^verbatim>\<open>main\<close> from reaching it.)
\<close>

theorem main_empty_no_views:
  "main hash top_papers [] = Inr None
   \<and> compute_warm_positions hash [] thread_order = Inl ValueError"
  by (simp add: main_def compute_warm_positions_def)

text \<open>
  C9 as stated fails: on the empty list the result of \<open>main\<close> is not a set of views with
  empty contents, it is no views at all.
\<close>

theorem main_empty_counterexample:
  "main (salted_hash 0) 800 [] = Inr None
   \<and> main (salted_hash 0) 800 []
       \<noteq> Inr (Some \<lparr>papers_view = [], citation_edges = [], core_ids = [],
            core_graph_edges = [], graph_nodes = [], graph_edges = []\<rparr>)"
  by (simp add: main_def)

section \<open>Relevance scoring: the gate on the year\<close>

lemma term_in_text_examples:
  "term_in_text ''euler lagrange'' ''euler-lagrange equations in elasticity''"
  "\<not> term_in_text ''current'' ''rectifiable currents''"
  "\<not> term_in_text ''nash'' ''a nash_x''"
  by code_simp+

lemma score_paper_example:
  "score_paper sbv_paper {} 1900 =
     (- 2.2, [''domain_free_discontinuity(+0.8)'', ''citations_50(+1)'', ''weak_calcvar_signal(-4)''],
      [''free_discontinuity''], 1)"
  by code_simp

text \<open>
  C10. A paper whose year is missing gets the sentinel score \<open>-999\<close>, the single reason
  \<open>below_min_year\<close>, no tags and domain count 0, whatever \<open>min_year\<close>, the known researchers
  and its other fields are; a paper whose year is below \<open>min_year\<close> gets the same result.
\<close>

theorem score_paper_missing_year:
  "(year p = None \<longrightarrow>
      score_paper p known_researchers min_year = (- 999, [''below_min_year''], [], 0))
   \<and> (\<forall>yr. year p = Some yr \<and> yr < min_year \<longrightarrow>
      score_paper p known_researchers min_year = (- 999, [''below_min_year''], [], 0))"
  by (simp add: score_paper_def Let_def)

theorem score_paper_missing_year_witness:
  "year (sbv_paper\<lparr>year := None\<rparr>) = None
   \<and> score_paper (sbv_paper\<lparr>year := None\<rparr>) {''luigi ambrosio''} 1900
       = (- 999, [''below_min_year''], [], 0)"
proof -
  have h: "year (sbv_paper\<lparr>year := None\<rparr>) = None" by simp
  with score_paper_missing_year [of "sbv_paper\<lparr>year := None\<rparr>" "{''luigi ambrosio''}" 1900]
  show ?thesis by blast
qed

end
